theory Spec2Isabelle
  imports Complex_Main
begin

section \<open>Strings\<close>

text \<open>
  Python strings are modelled as \<^typ>\<open>string\<close>, one \<^typ>\<open>char\<close> per character, a
  \<^typ>\<open>char\<close> being a code point below 256. Whitespace is what \<^verbatim>\<open>str.isspace\<close> accepts
  among these code points. Of the cased characters only the letters \<^verbatim>\<open>A-Z\<close> and
  \<^verbatim>\<open>a-z\<close> are modelled: the case mappings leave every other character as it is.
\<close>

definition ascii_uppercase :: string where
  "ascii_uppercase = ''ABCDEFGHIJKLMNOPQRSTUVWXYZ''"

definition ascii_lowercase :: string where
  "ascii_lowercase = ''abcdefghijklmnopqrstuvwxyz''"

definition lower_char :: "char \<Rightarrow> char" where
  "lower_char c = (case map_of (zip ascii_uppercase ascii_lowercase) c of None \<Rightarrow> c | Some d \<Rightarrow> d)"

definition py_lower :: "string \<Rightarrow> string" where
  "py_lower s = map lower_char s"

definition is_space :: "char \<Rightarrow> bool" where
  "is_space c = ((of_char c :: nat) \<in> set [9, 10, 11, 12, 13, 28, 29, 30, 31, 32, 133, 160])"

text \<open>\<^verbatim>\<open>s.strip()\<close>, \<^verbatim>\<open>s.rstrip('/')\<close>, \<^verbatim>\<open>s.startswith(p)\<close> and \<^verbatim>\<open>sub in s\<close>.\<close>

definition py_strip :: "string \<Rightarrow> string" where
  "py_strip s = rev (dropWhile is_space (rev (dropWhile is_space s)))"

definition rstrip_char :: "char \<Rightarrow> string \<Rightarrow> string" where
  "rstrip_char c s = rev (dropWhile (\<lambda>x. x = c) (rev s))"

definition startswith :: "string \<Rightarrow> string \<Rightarrow> bool" where
  "startswith s p = (take (length p) s = p)"

fun contains :: "string \<Rightarrow> string \<Rightarrow> bool" where
  "contains sub [] = (sub = [])"
| "contains sub (c # cs) = (startswith (c # cs) sub \<or> contains sub cs)"

section \<open>Process configuration\<close>

text \<open>
  \<^verbatim>\<open>os.environ\<close> is a map from names to values; \<^verbatim>\<open>os.getenv(k, d)\<close> is the value of
  \<^verbatim>\<open>k\<close>, or \<^verbatim>\<open>d\<close> when \<^verbatim>\<open>k\<close> is not set.
\<close>

type_synonym environ = "string \<rightharpoonup> string"

definition getenv :: "environ \<Rightarrow> string \<Rightarrow> string \<Rightarrow> string" where
  "getenv env k d = (case env k of None \<Rightarrow> d | Some v \<Rightarrow> v)"

text \<open>
  The gate of \<^verbatim>\<open>scrape_all\<close> (main.py, lines 62-63):
  \<^verbatim>\<open>
    extract_flag = os.getenv('SCRAPE_EXTRACT_CONTENT', '1')
    if extract_flag and extract_flag.lower() not in ('0', 'false', 'no'):
  \<close>
\<close>

definition extract_enabled :: "environ \<Rightarrow> bool" where
  "extract_enabled env =
     (let extract_flag = getenv env ''SCRAPE_EXTRACT_CONTENT'' ''1''
      in extract_flag \<noteq> [] \<and> py_lower extract_flag \<notin> set [''0'', ''false'', ''no''])"

section \<open>Dates and times\<close>

text \<open>
  A \<^verbatim>\<open>datetime\<close> is its wall-clock reading, counted in microseconds from
  0001-01-01T00:00:00, the UTC offset its \<^verbatim>\<open>tzinfo\<close> gives for it in seconds (\<open>None\<close>
  for a naive value), and whether its \<^verbatim>\<open>tzinfo\<close> is the very object that
  \<^verbatim>\<open>tz.gettz("Pacific/Auckland")\<close> returns (\<^verbatim>\<open>gettz\<close> caches the zone, so every call
  returns the same object). Python's type covers the years 1 to 9999; arithmetic that
  leaves this range raises \<^verbatim>\<open>OverflowError\<close>.
\<close>

datatype error = RequestException | ValueError | TypeError | OverflowError | AttributeError

record datetime =
  wall :: int
  utcoffset :: "int option"
  tz_is_pacific :: bool

definition us_per_day :: int where
  "us_per_day = 86400000000"

definition max_wall :: int where
  "max_wall = 3652059 * 86400000000"

definition in_range :: "int \<Rightarrow> bool" where
  "in_range w = (0 \<le> w \<and> w < max_wall)"

text \<open>The proleptic Gregorian calendar, as \<^verbatim>\<open>datetime._ymd2ord\<close> and \<^verbatim>\<open>_ord2ymd\<close> compute it.\<close>

definition is_leap :: "int \<Rightarrow> bool" where
  "is_leap y = (y mod 4 = 0 \<and> (y mod 100 \<noteq> 0 \<or> y mod 400 = 0))"

definition days_before_year :: "int \<Rightarrow> int" where
  "days_before_year year = (let y = year - 1 in y * 365 + y div 4 - y div 100 + y div 400)"

definition days_in_month :: "int \<Rightarrow> int \<Rightarrow> int" where
  "days_in_month year month =
     (if month = 2 then (if is_leap year then 29 else 28)
      else if month \<in> set [4, 6, 9, 11] then 30 else 31)"

definition days_before_month :: "int \<Rightarrow> int \<Rightarrow> int" where
  "days_before_month year month = (\<Sum>m \<leftarrow> [1..month - 1]. days_in_month year m)"

definition ymd2days :: "int \<Rightarrow> int \<Rightarrow> int \<Rightarrow> int" where
  "ymd2days year month day = days_before_year year + days_before_month year month + (day - 1)"

definition days2ymd :: "int \<Rightarrow> int \<times> int \<times> int" where
  "days2ymd n0 =
     (let n400 = n0 div 146097; n = n0 mod 146097;
          n100 = n div 36524; n = n mod 36524;
          n4 = n div 1461; n = n mod 1461;
          n1 = n div 365; n = n mod 365;
          year = n400 * 400 + 1 + n100 * 100 + n4 * 4 + n1
      in if n1 = 4 \<or> n100 = 4 then (year - 1, 12, 31)
         else
           (let month = (n + 50) div 32;
                preceding = days_before_month year month
            in if preceding > n
               then (year, month - 1, n - (preceding - days_in_month year (month - 1)) + 1)
               else (year, month, n - preceding + 1)))"

definition mk_datetime ::
  "int \<Rightarrow> int \<Rightarrow> int \<Rightarrow> int \<Rightarrow> int \<Rightarrow> int \<Rightarrow> int \<Rightarrow> int option \<Rightarrow> datetime" where
  "mk_datetime year month day hour minute second microsecond off =
     \<lparr>wall = ymd2days year month day * us_per_day
              + ((hour * 60 + minute) * 60 + second) * 1000000 + microsecond,
      utcoffset = off, tz_is_pacific = False\<rparr>"

text \<open>\<^verbatim>\<open>'%0wd' % n\<close> for a number that is not negative.\<close>

definition digit_char :: "nat \<Rightarrow> char" where
  "digit_char d = ''0123456789'' ! d"

fun show_nat :: "nat \<Rightarrow> string" where
  "show_nat n = (if n < 10 then [digit_char n] else show_nat (n div 10) @ [digit_char (n mod 10)])"

declare show_nat.simps [simp del]

definition zero_pad :: "nat \<Rightarrow> int \<Rightarrow> string" where
  "zero_pad w n = (let s = show_nat (nat n) in replicate (w - length s) CHR ''0'' @ s)"

text \<open>\<^verbatim>\<open>datetime.isoformat()\<close>: the date, \<^verbatim>\<open>T\<close>, the time, the microseconds when they are
  not zero, and the offset of an aware value as \<^verbatim>\<open>+HH:MM\<close> (with \<^verbatim>\<open>:SS\<close> when it has
  seconds).\<close>

definition format_offset :: "int option \<Rightarrow> string" where
  "format_offset off =
     (case off of
        None \<Rightarrow> []
      | Some o' \<Rightarrow>
          (let sign = (if o' < 0 then ''-'' else ''+'');
               a = \<bar>o'\<bar>;
               hh = a div 3600; mm = a mod 3600 div 60; ss = a mod 60
           in sign @ zero_pad 2 hh @ '':'' @ zero_pad 2 mm
              @ (if ss \<noteq> 0 then '':'' @ zero_pad 2 ss else [])))"

definition format_wall :: "int \<Rightarrow> string" where
  "format_wall w =
     (let (year, month, day) = days2ymd (w div us_per_day);
          t = w mod us_per_day;
          us = t mod 1000000; s = t div 1000000;
          hour = s div 3600; minute = s mod 3600 div 60; second = s mod 60
      in zero_pad 4 year @ ''-'' @ zero_pad 2 month @ ''-'' @ zero_pad 2 day @ ''T''
         @ zero_pad 2 hour @ '':'' @ zero_pad 2 minute @ '':'' @ zero_pad 2 second
         @ (if us \<noteq> 0 then ''.'' @ zero_pad 6 us else []))"

definition isoformat :: "datetime \<Rightarrow> string" where
  "isoformat dt = format_wall (wall dt) @ format_offset (utcoffset dt)"

text \<open>
  A time zone is the table of a zoneinfo file as \<^verbatim>\<open>dateutil.tz.tzfile\<close> reads it: the
  offset before the first transition and the transitions, each a UTC instant and the
  offset in force from it on, in ascending order. The table of \<^verbatim>\<open>Pacific/Auckland\<close> is
  data of the machine the program runs on, so it is a parameter here.
\<close>

record tzfile =
  first_offset :: int
  transitions :: "(int \<times> int) list"

fun last_transition :: "int \<Rightarrow> (int \<times> int) list \<Rightarrow> int \<Rightarrow> int" where
  "last_transition cur [] u = cur"
| "last_transition cur ((t, off) # ts) u = (if t \<le> u then last_transition off ts u else cur)"

definition tz_offset_utc :: "tzfile \<Rightarrow> int \<Rightarrow> int" where
  "tz_offset_utc tz u = last_transition (first_offset tz) (transitions tz) u"

text \<open>
  \<^verbatim>\<open>dt.astimezone(tz)\<close> for an aware \<^verbatim>\<open>dt\<close> and the zone \<^verbatim>\<open>tz\<close> of
  \<^verbatim>\<open>tz.gettz("Pacific/Auckland")\<close>: when \<^verbatim>\<open>dt.tzinfo\<close> is that same object, \<^verbatim>\<open>dt\<close>
  itself is returned (\<^verbatim>\<open>if tz is mytz: return self\<close>). Otherwise
  \<^verbatim>\<open>utc = dt - dt.utcoffset()\<close>, then \<^verbatim>\<open>tz.fromutc(utc)\<close>, which adds the offset the table
  gives for that instant; either step raises \<^verbatim>\<open>OverflowError\<close> when it leaves the
  range of \<^verbatim>\<open>datetime\<close>. The program calls it on aware values only; Python reads a
  naive \<^verbatim>\<open>dt\<close> in the zone of the machine, which this model does not have, so the
  first branch below is never taken by the program.
\<close>

definition astimezone :: "tzfile \<Rightarrow> datetime \<Rightarrow> error + datetime" where
  "astimezone tz dt =
     (case utcoffset dt of
        None \<Rightarrow> Inl ValueError
      | Some off \<Rightarrow>
          (if tz_is_pacific dt then Inr dt
           else
             (let utc = wall dt - off * 1000000
              in if \<not> in_range utc then Inl OverflowError
                 else
                   (let off' = tz_offset_utc tz utc; local = utc + off' * 1000000
                    in if \<not> in_range local then Inl OverflowError
                       else Inr \<lparr>wall = local, utcoffset = Some off',
                                 tz_is_pacific = True\<rparr>))))"

section \<open>JSON values\<close>

text \<open>
  What \<^verbatim>\<open>json.loads\<close> and \<^verbatim>\<open>response.json()\<close> return: \<^verbatim>\<open>None\<close>, a bool, an int, a
  string, a list, or a dict, the latter as the list of its items (keys distinct). A
  JSON number with a fraction or an exponent (a Python float) is not part of this model.
\<close>

datatype json =
  JNull | JBool bool | JInt int | JStr string | JArr "json list" | JObj "(string \<times> json) list"

text \<open>The truth value of an object, as \<^verbatim>\<open>if x\<close>, \<^verbatim>\<open>x or y\<close> and \<^verbatim>\<open>not x\<close> take it.\<close>

fun truthy :: "json \<Rightarrow> bool" where
  "truthy JNull = False"
| "truthy (JBool b) = b"
| "truthy (JInt n) = (n \<noteq> 0)"
| "truthy (JStr s) = (s \<noteq> [])"
| "truthy (JArr xs) = (xs \<noteq> [])"
| "truthy (JObj kvs) = (kvs \<noteq> [])"

text \<open>\<^verbatim>\<open>d.get(k, default)\<close> on a dict.\<close>

definition dict_get :: "(string \<times> json) list \<Rightarrow> string \<Rightarrow> json \<Rightarrow> json" where
  "dict_get d k dflt = (case map_of d k of None \<Rightarrow> dflt | Some v \<Rightarrow> v)"

text \<open>\<^verbatim>\<open>len(x)\<close>: a \<^verbatim>\<open>TypeError\<close> for \<^verbatim>\<open>None\<close>, a bool and an int.\<close>

fun py_len :: "json \<Rightarrow> error + nat" where
  "py_len (JStr s) = Inr (length s)"
| "py_len (JArr xs) = Inr (length xs)"
| "py_len (JObj kvs) = Inr (length kvs)"
| "py_len _ = Inl TypeError"

text \<open>\<^verbatim>\<open>x[:n]\<close>: a string and a list are sliced; a dict takes no slice as a key, and
  \<^verbatim>\<open>None\<close>, a bool and an int are not subscriptable.\<close>

fun py_slice_to :: "nat \<Rightarrow> json \<Rightarrow> error + json" where
  "py_slice_to n (JStr s) = Inr (JStr (take n s))"
| "py_slice_to n (JArr xs) = Inr (JArr (take n xs))"
| "py_slice_to n _ = Inl TypeError"

section \<open>The Article (models/article.py)\<close>

text \<open>
  \<^verbatim>\<open>published_date\<close> is a \<^verbatim>\<open>datetime\<close> or a \<^verbatim>\<open>str\<close> (the constructor replaces \<^verbatim>\<open>None\<close>
  by the current UTC time). The sentiment score and confidence are floats, read here as
  the rational numbers they denote. The word lists hold what the enrichment step puts in
  them.
\<close>

datatype pubdate = PDatetime datetime | PStr string

record article =
  title :: string
  description :: string
  url :: string
  source :: string
  category :: string
  published_date :: pubdate
  content :: string
  sentiment_label :: string
  sentiment_score :: rat
  sentiment_confidence :: rat
  positive_words :: "json list"
  negative_words :: "json list"

text \<open>\<^verbatim>\<open>datetime.now(tz.UTC)\<close> when the clock reads \<open>t\<close> (microseconds of UTC).\<close>

definition now_utc :: "int \<Rightarrow> datetime" where
  "now_utc t = \<lparr>wall = t, utcoffset = Some 0, tz_is_pacific = False\<rparr>"

text \<open>\<^verbatim>\<open>Article.__init__\<close> with the defaults of its optional arguments.\<close>

definition Article ::
  "int \<Rightarrow> string \<Rightarrow> string \<Rightarrow> string \<Rightarrow> string \<Rightarrow> string \<Rightarrow> pubdate option \<Rightarrow> article" where
  "Article t title' description' url' source' category' published_date' =
     \<lparr>title = title', description = description', url = url', source = source',
      category = category',
      published_date =
        (case published_date' of None \<Rightarrow> PDatetime (now_utc t) | Some d \<Rightarrow> d),
      content = [], sentiment_label = ''neutral'', sentiment_score = 0,
      sentiment_confidence = 0, positive_words = [], negative_words = []\<rparr>"

text \<open>The dict \<^verbatim>\<open>to_dict\<close> returns, with the keys of the wire format.\<close>

record wire =
  w_title :: string
  w_description :: string
  w_url :: string
  w_source :: string
  w_category :: string
  w_publishedDate :: string
  w_content :: string
  w_sentimentLabel :: string
  w_sentimentScore :: rat
  w_sentimentConfidence :: rat
  w_positiveWords :: "json list"
  w_negativeWords :: "json list"

text \<open>
  What \<^verbatim>\<open>to_dict\<close> takes from outside the program: \<^verbatim>\<open>dateutil.parser.parse\<close>, whose
  result may depend on the current date (\<open>None\<close> when it raises \<^verbatim>\<open>ValueError\<close>,
  \<^verbatim>\<open>TypeError\<close> or \<^verbatim>\<open>OverflowError\<close>), and the zone \<^verbatim>\<open>tz.gettz("Pacific/Auckland")\<close>.
\<close>

record datelib =
  parser_parse :: "int \<Rightarrow> string \<Rightarrow> datetime option"
  pacific :: tzfile

text \<open>\<^verbatim>\<open>Article.to_dict\<close> (article.py, lines 39-84), called when the clock reads \<open>t\<close>.\<close>

definition to_dict :: "datelib \<Rightarrow> int \<Rightarrow> article \<Rightarrow> error + wire" where
  "to_dict lib t a =
     (let dt = (case published_date a of
                  PDatetime d \<Rightarrow> Some d
                | PStr s \<Rightarrow> parser_parse lib t s);
          dt = (case dt of None \<Rightarrow> now_utc t | Some d \<Rightarrow> d);
          dt = (if utcoffset dt = None
                then dt\<lparr>utcoffset := Some 0, tz_is_pacific := False\<rparr> else dt)
      in case astimezone (pacific lib) dt of
           Inl e \<Rightarrow> Inl e
         | Inr nz_dt \<Rightarrow>
             Inr \<lparr>w_title = title a, w_description = description a, w_url = url a,
                  w_source = source a, w_category = category a,
                  w_publishedDate = isoformat nz_dt,
                  w_content = content a, w_sentimentLabel = sentiment_label a,
                  w_sentimentScore = sentiment_score a,
                  w_sentimentConfidence = sentiment_confidence a,
                  w_positiveWords = positive_words a,
                  w_negativeWords = negative_words a\<rparr>)"

section \<open>The submission client (services/article\_service.py)\<close>

text \<open>\<^verbatim>\<open>_truncate(s, length)\<close> on a string.\<close>

definition truncate_text :: "string \<Rightarrow> nat \<Rightarrow> string" where
  "truncate_text text' n = (if length text' > n then take n text' @ ''...'' else text')"

text \<open>
  A response of \<^verbatim>\<open>requests\<close>: its status, its body, and what \<^verbatim>\<open>response.json()\<close> gives
  for the body (\<open>None\<close> when it raises \<^verbatim>\<open>ValueError\<close>). \<^verbatim>\<open>requests.post(url, json=data)\<close>
  is a function of the world: it returns a response or raises.
\<close>

record response =
  status_code :: int
  body_text :: string
  json_body :: "json option"

type_synonym transport = "string \<Rightarrow> wire list \<Rightarrow> error + response"

record article_service =
  base_url :: string
  articles_endpoint :: string
  articles_url :: string

definition ArticleService :: "string \<Rightarrow> string \<Rightarrow> article_service" where
  "ArticleService base_url' articles_endpoint' =
     (let b = rstrip_char CHR ''/'' base_url'
      in \<lparr>base_url = b, articles_endpoint = articles_endpoint',
          articles_url = b @ articles_endpoint'\<rparr>)"

text \<open>The dict \<^verbatim>\<open>create_articles_batch\<close> returns.\<close>

record batch_result =
  added :: json
  skipped :: json
  errors :: json

text \<open>
  \<^verbatim>\<open>[article.to_dict() for article in articles]\<close>; \<open>clock i\<close> is the reading of the clock
  when the article at index \<open>i\<close> is serialised. The first \<^verbatim>\<open>to_dict\<close> that raises ends
  the comprehension.
\<close>

fun to_dict_all :: "datelib \<Rightarrow> (nat \<Rightarrow> int) \<Rightarrow> nat \<Rightarrow> article list \<Rightarrow> error + wire list" where
  "to_dict_all lib clock i [] = Inr []"
| "to_dict_all lib clock i (a # as) =
     (case to_dict lib (clock i) a of
        Inl e \<Rightarrow> Inl e
      | Inr w \<Rightarrow>
          (case to_dict_all lib clock (Suc i) as of
             Inl e \<Rightarrow> Inl e
           | Inr ws \<Rightarrow> Inr (w # ws)))"

text \<open>
  \<^verbatim>\<open>ArticleService.create_articles_batch\<close> (article\_service.py, lines 56-109). The
  only handler around the body is \<^verbatim>\<open>except requests.exceptions.RequestException\<close>;
  every other exception leaves the method. The calls of the logger are left out: the
  \<^verbatim>\<open>logging\<close> module reports a formatting error of its own and does not raise it, but
  the arguments \<^verbatim>\<open>len(errors)\<close> and \<^verbatim>\<open>errors[:5]\<close> are evaluated by the method itself.
\<close>

definition create_articles_batch ::
  "datelib \<Rightarrow> (nat \<Rightarrow> int) \<Rightarrow> transport \<Rightarrow> article_service \<Rightarrow> article list
     \<Rightarrow> error + batch_result" where
  "create_articles_batch lib clock post svc articles =
     (let batch_url = articles_url svc @ ''/batch''
      in case to_dict_all lib clock 0 articles of
           Inl e \<Rightarrow> Inl e
         | Inr articles_data \<Rightarrow>
             (case post batch_url articles_data of
                Inl e \<Rightarrow>
                  (if e = RequestException
                   then Inr \<lparr>added = JInt 0, skipped = JInt 0,
                             errors = JArr [JStr ''request exception'']\<rparr>
                   else Inl e)
              | Inr response \<Rightarrow>
                  (if status_code response = 200
                   then
                     (let result = (case json_body response of None \<Rightarrow> JObj [] | Some r \<Rightarrow> r);
                          result = (case result of JObj d \<Rightarrow> d | _ \<Rightarrow> []);
                          added' = dict_get result ''added'' (JInt 0);
                          skipped' = dict_get result ''skipped'' (JInt 0);
                          errors' = (let e = dict_get result ''errors'' (JArr [])
                                     in if truthy e then e else JArr [])
                      in case py_len errors' of
                           Inl e \<Rightarrow> Inl e
                         | Inr n \<Rightarrow>
                             (if truthy errors'
                              then (case py_slice_to 5 errors' of
                                      Inl e \<Rightarrow> Inl e
                                    | Inr sample \<Rightarrow>
                                        Inr \<lparr>added = added', skipped = skipped',
                                             errors = errors'\<rparr>)
                              else Inr \<lparr>added = added', skipped = skipped',
                                        errors = errors'\<rparr>))
                   else Inr \<lparr>added = JInt 0, skipped = JInt 0,
                             errors = JArr [JStr (truncate_text (body_text response) 500)]\<rparr>)))"

section \<open>The sentiment enricher (services/sentiment\_analyzer.py)\<close>

text \<open>
  The inference provider: \<^verbatim>\<open>_client.text_classification\<close> returns the ranked list of
  labels with their scores or raises, \<^verbatim>\<open>_client.text_generation\<close> returns a text or
  raises. \<^verbatim>\<open>json.loads\<close> is a function of the library (\<open>None\<close> when it raises). Every
  remote call the code makes is recorded, in the order of the calls.
\<close>

record classification =
  label :: string
  score :: rat

record inference =
  text_classification :: "string \<Rightarrow> error + classification list"
  text_generation :: "string \<Rightarrow> error + string"
  json_loads :: "string \<Rightarrow> json option"

datatype call = Classify string | Generate string

record SentimentTerms =
  st_label :: string
  st_score :: rat
  st_confidence :: rat
  st_positive_words :: "json list"
  st_negative_words :: "json list"

definition SentimentTerms_default :: SentimentTerms where
  "SentimentTerms_default =
     \<lparr>st_label = ''neutral'', st_score = 0, st_confidence = 0,
      st_positive_words = [], st_negative_words = []\<rparr>"

definition STOP_WORDS :: "string list" where
  "STOP_WORDS =
     [''the'', ''and'', ''for'', ''that'', ''with'', ''this'', ''from'', ''have'', ''has'',
      ''had'', ''were'', ''was'', ''are'', ''is'', ''but'', ''not'', ''you'', ''your'',
      ''their'', ''they'', ''them'', ''our'', ''ours'', ''its'', ''his'', ''her'', ''him'',
      ''she'', ''who'', ''what'', ''when'', ''where'', ''why'', ''how'', ''after'',
      ''before'', ''into'', ''onto'', ''over'', ''under'', ''about'', ''between'',
      ''against'', ''during'', ''while'', ''would'', ''could'', ''should'', ''will'',
      ''just'', ''than'', ''then'', ''there'', ''here'', ''also'', ''more'', ''most'',
      ''some'', ''such'', ''only'', ''very'', ''much'', ''many'', ''few'', ''all'', ''any'',
      ''each'', ''both'', ''news'', ''said'', ''says'', ''say'', ''new'', ''report'',
      ''reports'', ''today'', ''yesterday'', ''tomorrow'', ''committee'']"

text \<open>
  \<^verbatim>\<open>_WORD_RE.findall\<close> for \<^verbatim>\<open>[a-zA-Z][a-zA-Z'-]{2,}\<close>: the scan goes from left to right;
  at a letter it takes the longest run of letters, apostrophes and hyphens that starts
  there, keeps it when it has three characters or more and goes on behind it, and
  otherwise goes on at the next character.
\<close>

definition is_letter :: "char \<Rightarrow> bool" where
  "is_letter c = (c \<in> set ascii_lowercase \<or> c \<in> set ascii_uppercase)"

definition is_word_char :: "char \<Rightarrow> bool" where
  "is_word_char c = (is_letter c \<or> c = CHR 0x27 \<or> c = CHR ''-'')"

function findall_words :: "string \<Rightarrow> string list" where
  "findall_words [] = []"
| "findall_words (c # cs) =
     (if is_letter c \<and> length (takeWhile is_word_char cs) \<ge> 2
      then (c # takeWhile is_word_char cs) # findall_words (dropWhile is_word_char cs)
      else findall_words cs)"
  by pat_completeness auto
termination
  by (relation "measure length") (auto simp: length_dropWhile_le less_Suc_eq_le)

text \<open>
  \<^verbatim>\<open>_parse_json_block\<close>: \<^verbatim>\<open>re.search(r"\{.*\}", text, re.DOTALL)\<close> matches from the first
  opening brace to the last closing brace behind it.
\<close>

definition brace_block :: "string \<Rightarrow> string option" where
  "brace_block text' =
     (let from_open = dropWhile (\<lambda>c. c \<noteq> CHR ''{'') text';
          block = rev (dropWhile (\<lambda>c. c \<noteq> CHR ''}'') (rev from_open))
      in if block = [] then None else Some block)"

definition parse_json_block :: "(string \<Rightarrow> json option) \<Rightarrow> string \<Rightarrow> json" where
  "parse_json_block loads text' =
     (case brace_block text' of
        None \<Rightarrow> JObj []
      | Some m \<Rightarrow> (case loads m of None \<Rightarrow> JObj [] | Some v \<Rightarrow> v))"

text \<open>
  \<^verbatim>\<open>_extract_candidate_words\<close>; the set \<^verbatim>\<open>seen\<close> always holds the elements of
  \<^verbatim>\<open>words\<close>, so the membership test is made on \<^verbatim>\<open>words\<close>.
\<close>

fun candidate_loop :: "nat \<Rightarrow> string list \<Rightarrow> string list \<Rightarrow> string list" where
  "candidate_loop limit words [] = words"
| "candidate_loop limit words (token # tokens) =
     (if token \<in> set STOP_WORDS then candidate_loop limit words tokens
      else if token \<in> set words then candidate_loop limit words tokens
      else if length (words @ [token]) \<ge> limit then words @ [token]
      else candidate_loop limit (words @ [token]) tokens)"

definition extract_candidate_words :: "string \<Rightarrow> nat \<Rightarrow> string list" where
  "extract_candidate_words text' limit = candidate_loop limit [] (findall_words (py_lower text'))"

text \<open>The double nearest to \<^verbatim>\<open>0.6\<close>, the bound of \<^verbatim>\<open>confidence < 0.6\<close>.\<close>

definition confidence_bound :: rat where
  "confidence_bound = 5404319552844595 / 9007199254740992"

text \<open>
  The loop of \<^verbatim>\<open>_classify_words_with_sentiment_model\<close>: each word is classified under
  \<^verbatim>\<open>suppress(Exception)\<close>, so a call that raises leaves both lists as they are.
\<close>

fun classify_loop ::
  "inference \<Rightarrow> string list \<Rightarrow> (rat \<times> string) list \<Rightarrow> (rat \<times> string) list
     \<Rightarrow> (rat \<times> string) list \<times> (rat \<times> string) list" where
  "classify_loop client [] positive_ranked negative_ranked = (positive_ranked, negative_ranked)"
| "classify_loop client (word # ws) positive_ranked negative_ranked =
     (case text_classification client word of
        Inl e \<Rightarrow> classify_loop client ws positive_ranked negative_ranked
      | Inr [] \<Rightarrow> classify_loop client ws positive_ranked negative_ranked
      | Inr (top' # rest) \<Rightarrow>
          (let label' = py_lower (label top'); confidence = score top'
           in if confidence < confidence_bound
              then classify_loop client ws positive_ranked negative_ranked
              else if label' = ''positive''
              then classify_loop client ws (positive_ranked @ [(confidence, word)]) negative_ranked
              else if label' = ''negative''
              then classify_loop client ws positive_ranked (negative_ranked @ [(confidence, word)])
              else classify_loop client ws positive_ranked negative_ranked))"

text \<open>\<^verbatim>\<open>xs.sort(key=lambda item: item[0], reverse=True)\<close>: stable, largest key first.\<close>

definition sort_ranked :: "(rat \<times> string) list \<Rightarrow> (rat \<times> string) list" where
  "sort_ranked xs = sort_key (\<lambda>item. - fst item) xs"

definition classify_words_with_sentiment_model ::
  "inference \<Rightarrow> string \<Rightarrow> (json list \<times> json list) \<times> call list" where
  "classify_words_with_sentiment_model client text' =
     (let words = extract_candidate_words text' 30;
          (positive_ranked, negative_ranked) = classify_loop client words [] []
      in ((map (\<lambda>item. JStr (snd item)) (take 8 (sort_ranked positive_ranked)),
           map (\<lambda>item. JStr (snd item)) (take 8 (sort_ranked negative_ranked))),
          map Classify words))"

text \<open>
  \<^verbatim>\<open>list(dict.fromkeys(x))\<close>: \<^verbatim>\<open>x\<close> is iterated (a list gives its elements, a string
  its characters, a dict its keys; anything else raises \<^verbatim>\<open>TypeError\<close>), every element
  must be hashable (a list or a dict raises \<^verbatim>\<open>TypeError\<close>), and of equal keys the first
  stays. As keys, \<^verbatim>\<open>True\<close> equals \<^verbatim>\<open>1\<close> and \<^verbatim>\<open>False\<close> equals \<^verbatim>\<open>0\<close>.
\<close>

fun py_iter :: "json \<Rightarrow> error + json list" where
  "py_iter (JArr xs) = Inr xs"
| "py_iter (JStr s) = Inr (map (\<lambda>c. JStr [c]) s)"
| "py_iter (JObj kvs) = Inr (map (\<lambda>kv. JStr (fst kv)) kvs)"
| "py_iter _ = Inl TypeError"

fun hashable :: "json \<Rightarrow> bool" where
  "hashable (JArr xs) = False"
| "hashable (JObj kvs) = False"
| "hashable _ = True"

fun key_of :: "json \<Rightarrow> json" where
  "key_of (JBool b) = JInt (if b then 1 else 0)"
| "key_of v = v"

fun fromkeys_loop :: "json list \<Rightarrow> json list \<Rightarrow> error + json list" where
  "fromkeys_loop keys [] = Inr keys"
| "fromkeys_loop keys (x # xs) =
     (if \<not> hashable x then Inl TypeError
      else if key_of x \<in> key_of ` set keys then fromkeys_loop keys xs
      else fromkeys_loop (keys @ [x]) xs)"

definition list_dict_fromkeys :: "json \<Rightarrow> error + json list" where
  "list_dict_fromkeys x = (case py_iter x of Inl e \<Rightarrow> Inl e | Inr xs \<Rightarrow> fromkeys_loop [] xs)"

text \<open>
  Step 2 of \<^verbatim>\<open>analyze_text_sentiment_and_terms\<close> behind the call of the generative
  model (lines 117-119), under \<^verbatim>\<open>suppress(Exception)\<close>: an exception keeps the lists
  assigned so far. \<^verbatim>\<open>data.get\<close> raises \<^verbatim>\<open>AttributeError\<close> when \<^verbatim>\<open>data\<close> is no dict.
\<close>

definition structured_terms :: "(string \<Rightarrow> json option) \<Rightarrow> string \<Rightarrow> json list \<times> json list" where
  "structured_terms loads gen =
     (case parse_json_block loads gen of
        JObj data \<Rightarrow>
          (case list_dict_fromkeys (dict_get data ''positive_words'' (JArr [])) of
             Inl e \<Rightarrow> ([], [])
           | Inr positive_words' \<Rightarrow>
               (case list_dict_fromkeys (dict_get data ''negative_words'' (JArr [])) of
                  Inl e \<Rightarrow> (positive_words', [])
                | Inr negative_words' \<Rightarrow> (positive_words', negative_words')))
      | _ \<Rightarrow> ([], []))"

definition PROMPT :: string where
  "PROMPT =
     ''Extract sentiment-bearing words from this news text.'' @ [CHR 0x0A]
     @ ''Return STRICT JSON only with keys: positive_words, negative_words.'' @ [CHR 0x0A]
     @ ''Each value must be an array of unique lowercase words.'' @ [CHR 0x0A, CHR 0x0A]
     @ ''TEXT: ''"

text \<open>Line 91: \<^verbatim>\<open>f"{(title or '').strip()} {(description or '').strip()}".strip()\<close>.\<close>

definition combined_text :: "string \<Rightarrow> string \<Rightarrow> string" where
  "combined_text title' description' = py_strip (py_strip title' @ '' '' @ py_strip description')"

text \<open>\<^verbatim>\<open>analyze_text_sentiment_and_terms\<close> (sentiment\_analyzer.py, lines 90-130).\<close>

definition analyze_text_sentiment_and_terms ::
  "inference \<Rightarrow> string \<Rightarrow> string \<Rightarrow> SentimentTerms \<times> call list" where
  "analyze_text_sentiment_and_terms client title' description' =
     (let text' = combined_text title' description'
      in if text' = [] then (SentimentTerms_default, [])
         else
           (let (label', score', confidence') =
                  (case text_classification client text' of
                     Inl e \<Rightarrow> (''neutral'', 0, 0)
                   | Inr [] \<Rightarrow> (''neutral'', 0, 0)
                   | Inr (top' # rest) \<Rightarrow> (py_lower (label top'), score top', score top'));
                prompt = PROMPT @ text';
                (positive_words', negative_words') =
                  (case text_generation client prompt of
                     Inl e \<Rightarrow> ([], [])
                   | Inr gen \<Rightarrow> structured_terms (json_loads client) gen);
                calls = [Classify text', Generate prompt]
            in if positive_words' = [] \<and> negative_words' = []
               then
                 (let ((pw, nw), calls') = classify_words_with_sentiment_model client text'
                  in (\<lparr>st_label = label', st_score = score', st_confidence = confidence',
                       st_positive_words = pw, st_negative_words = nw\<rparr>,
                      calls @ calls'))
               else
                 (\<lparr>st_label = label', st_score = score', st_confidence = confidence',
                   st_positive_words = positive_words', st_negative_words = negative_words'\<rparr>,
                  calls)))"

section \<open>The orchestrator (main.py)\<close>

text \<open>
  What a run takes from outside the program: the environment variables, the inference
  provider, \<^verbatim>\<open>extract_content\<close> (services/content\_extractor.py, which fetches and
  parses a page; it returns a text, \<^verbatim>\<open>None\<close>, or raises), the date library, the clock
  and \<^verbatim>\<open>requests.post\<close>.
\<close>

record world =
  os_environ :: environ
  hf_client :: inference
  extract_content :: "string \<Rightarrow> error + string option"
  date_lib :: datelib
  read_clock :: "nat \<Rightarrow> int"
  requests_post :: transport

text \<open>
  A scraper, as the orchestrator sees it: its \<^verbatim>\<open>source\<close> and what \<^verbatim>\<open>scrape()\<close> does in
  this run, which is to raise or to return a list of articles.
\<close>

record scraper =
  scraper_source :: string
  scrape :: "error + article list"

record totals =
  total_scraped :: int
  total_added :: int
  total_skipped :: int

text \<open>
  What a run does besides counting: the line \<^verbatim>\<open>Running ... scraper...\<close> it logs for each
  scraper, the outcome it logs for the scraper, the remote calls of the enricher and the
  calls of \<^verbatim>\<open>extract_content\<close>.
\<close>

datatype event =
    Running string
  | NoArticles string
  | Scraped string nat
  | ErrorScraping string error
  | RemoteCall call
  | ExtractCall string

text \<open>Lines 50-59: the sentiment fields of each article are overwritten in place.\<close>

definition enrich_sentiment :: "inference \<Rightarrow> article \<Rightarrow> article \<times> event list" where
  "enrich_sentiment client art =
     (let (sentiment, calls) = analyze_text_sentiment_and_terms client (title art) (description art)
      in (art\<lparr>sentiment_label := st_label sentiment,
               sentiment_score := st_score sentiment,
               sentiment_confidence := st_confidence sentiment,
               positive_words := st_positive_words sentiment,
               negative_words := st_negative_words sentiment\<rparr>,
          map RemoteCall calls))"

fun enrich_all :: "inference \<Rightarrow> article list \<Rightarrow> article list \<times> event list" where
  "enrich_all client [] = ([], [])"
| "enrich_all client (art # arts) =
     (let (art', ev) = enrich_sentiment client art;
          (arts', evs) = enrich_all client arts
      in (art' # arts', ev @ evs))"

text \<open>
  Lines 64-73, the body of the extraction loop for one article: an article that has
  content is skipped; otherwise \<^verbatim>\<open>extract_content\<close> is called, a text that is not empty
  is stored, and an exception is swallowed.
\<close>

definition extract_one ::
  "(string \<Rightarrow> error + string option) \<Rightarrow> article \<Rightarrow> article \<times> event list" where
  "extract_one extract art =
     (if content art \<noteq> [] then (art, [])
      else (case extract (url art) of
              Inl e \<Rightarrow> (art, [ExtractCall (url art)])
            | Inr None \<Rightarrow> (art, [ExtractCall (url art)])
            | Inr (Some c) \<Rightarrow>
                (if c \<noteq> [] then art\<lparr>content := c\<rparr> else art, [ExtractCall (url art)])))"

fun extract_all ::
  "(string \<Rightarrow> error + string option) \<Rightarrow> article list \<Rightarrow> article list \<times> event list" where
  "extract_all extract [] = ([], [])"
| "extract_all extract (art # arts) =
     (let (art', ev) = extract_one extract art;
          (arts', evs) = extract_all extract arts
      in (art' # arts', ev @ evs))"

text \<open>
  Lines 50-73: the enrichment of the articles of one scraper, sentiment first, then the
  content when the toggle enables it.
\<close>

definition enrich :: "world \<Rightarrow> article list \<Rightarrow> article list \<times> event list" where
  "enrich w articles =
     (let (articles1, ev1) = enrich_all (hf_client w) articles
      in if extract_enabled (os_environ w)
         then (let (articles2, ev2) = extract_all (extract_content w) articles1
               in (articles2, ev1 @ ev2))
         else (articles1, ev1))"

text \<open>\<^verbatim>\<open>n += x\<close> for an int \<^verbatim>\<open>n\<close>: a bool counts as 1 or 0, and every other value
  of the model that is not an int raises \<^verbatim>\<open>TypeError\<close>.\<close>

fun py_iadd :: "int \<Rightarrow> json \<Rightarrow> error + int" where
  "py_iadd n (JInt m) = Inr (n + m)"
| "py_iadd n (JBool b) = Inr (n + (if b then 1 else 0))"
| "py_iadd n _ = Inl TypeError"

text \<open>
  Lines 43-99, the body of the loop of \<^verbatim>\<open>scrape_all\<close> for one scraper. The whole body
  is inside \<^verbatim>\<open>try ... except Exception\<close>: an exception ends the body, and the counters
  keep what was added to them before.
\<close>

definition process_scraper ::
  "world \<Rightarrow> article_service \<Rightarrow> totals \<times> event list \<Rightarrow> scraper \<Rightarrow> totals \<times> event list" where
  "process_scraper w svc state s =
     (let (tot, log) = state;
          log = log @ [Running (scraper_source s)]
      in case scrape s of
           Inl e \<Rightarrow> (tot, log @ [ErrorScraping (scraper_source s) e])
         | Inr articles \<Rightarrow>
             (if articles = [] then (tot, log @ [NoArticles (scraper_source s)])
              else
                (let tot = tot\<lparr>total_scraped := total_scraped tot + int (length articles)\<rparr>;
                     (articles, ev) = enrich w articles;
                     log = log @ ev
                 in case create_articles_batch (date_lib w) (read_clock w) (requests_post w) svc articles of
                      Inl e \<Rightarrow> (tot, log @ [ErrorScraping (scraper_source s) e])
                    | Inr result \<Rightarrow>
                        (case py_iadd (total_added tot) (added result) of
                           Inl e \<Rightarrow> (tot, log @ [ErrorScraping (scraper_source s) e])
                         | Inr a \<Rightarrow>
                             (let tot = tot\<lparr>total_added := a\<rparr>
                              in case py_iadd (total_skipped tot) (skipped result) of
                                   Inl e \<Rightarrow> (tot, log @ [ErrorScraping (scraper_source s) e])
                                 | Inr k \<Rightarrow>
                                     (let tot = tot\<lparr>total_skipped := k\<rparr>;
                                          errors' = (if truthy (errors result) then errors result
                                                     else JArr [])
                                      in if truthy errors'
                                         then (case py_slice_to 5 errors' of
                                                 Inl e \<Rightarrow>
                                                   (tot, log @ [ErrorScraping (scraper_source s) e])
                                               | Inr sample \<Rightarrow>
                                                   (tot, log @ [Scraped (scraper_source s)
                                                                  (length articles)]))
                                         else (tot, log @ [Scraped (scraper_source s)
                                                             (length articles)])))))))"

text \<open>\<^verbatim>\<open>ScraperOrchestrator.__init__\<close> and \<^verbatim>\<open>scrape_all\<close> (lines 34-108).\<close>

record orchestrator =
  article_service :: article_service
  scrapers :: "scraper list"

definition ScraperOrchestrator :: "world \<Rightarrow> scraper list \<Rightarrow> orchestrator" where
  "ScraperOrchestrator w registered =
     \<lparr>article_service =
        ArticleService (getenv (os_environ w) ''API_BASE_URL'' ''http://localhost:5000'')
                       (getenv (os_environ w) ''API_ARTICLES_ENDPOINT'' ''/api/articles''),
      scrapers = registered\<rparr>"

definition scrape_all :: "world \<Rightarrow> orchestrator \<Rightarrow> totals \<times> event list" where
  "scrape_all w self =
     foldl (process_scraper w (article_service self))
       (\<lparr>total_scraped = 0, total_added = 0, total_skipped = 0\<rparr>, [])
       (scrapers self)"

section \<open>The scrapers (scrapers/)\<close>

text \<open>More of \<^verbatim>\<open>str\<close>: \<^verbatim>\<open>s.split()\<close>, \<^verbatim>\<open>s.split(c)\<close>, \<^verbatim>\<open>s.isupper()\<close>, \<^verbatim>\<open>s.title()\<close> and
  \<^verbatim>\<open>s.replace(a, b)\<close> for single characters.\<close>

fun split_ws :: "string \<Rightarrow> string \<Rightarrow> string list" where
  "split_ws cur [] = (if cur = [] then [] else [cur])"
| "split_ws cur (c # cs) =
     (if is_space c then (if cur = [] then split_ws [] cs else cur # split_ws [] cs)
      else split_ws (cur @ [c]) cs)"

definition py_split :: "string \<Rightarrow> string list" where
  "py_split s = split_ws [] s"

fun split_on :: "char \<Rightarrow> string \<Rightarrow> string \<Rightarrow> string list" where
  "split_on sep cur [] = [cur]"
| "split_on sep cur (c # cs) =
     (if c = sep then cur # split_on sep [] cs else split_on sep (cur @ [c]) cs)"

definition py_split_char :: "char \<Rightarrow> string \<Rightarrow> string list" where
  "py_split_char sep s = split_on sep [] s"

definition py_isupper :: "string \<Rightarrow> bool" where
  "py_isupper s =
     (list_ex (\<lambda>c. c \<in> set ascii_uppercase) s \<and> list_all (\<lambda>c. c \<notin> set ascii_lowercase) s)"

definition upper_char :: "char \<Rightarrow> char" where
  "upper_char c = (case map_of (zip ascii_lowercase ascii_uppercase) c of None \<Rightarrow> c | Some d \<Rightarrow> d)"

fun title_from :: "bool \<Rightarrow> string \<Rightarrow> string" where
  "title_from previous_cased [] = []"
| "title_from previous_cased (c # cs) =
     (if c \<in> set ascii_lowercase
      then (if previous_cased then c else upper_char c) # title_from True cs
      else if c \<in> set ascii_uppercase
      then (if previous_cased then lower_char c else c) # title_from True cs
      else c # title_from False cs)"

definition py_title :: "string \<Rightarrow> string" where
  "py_title s = title_from False s"

definition py_replace_char :: "char \<Rightarrow> char \<Rightarrow> string \<Rightarrow> string" where
  "py_replace_char a b s = map (\<lambda>c. if c = a then b else c) s"

text \<open>\<^verbatim>\<open>BaseScraper\<close> (base\_scraper.py): the configuration every scraper carries, with the
  defaults of the constructor.\<close>

record base_scraper =
  cfg_source :: string
  cfg_base_url :: string
  cfg_category :: string
  max_articles :: int
  timeout :: int

definition BaseScraper :: "string \<Rightarrow> string \<Rightarrow> string \<Rightarrow> base_scraper" where
  "BaseScraper source' base_url' category' =
     \<lparr>cfg_source = source', cfg_base_url = base_url', cfg_category = category',
      max_articles = 20, timeout = 10\<rparr>"

definition is_valid_article :: "string \<Rightarrow> string \<Rightarrow> bool" where
  "is_valid_article title' url' = (py_strip title' \<noteq> [] \<and> py_strip url' \<noteq> [])"

text \<open>\<^verbatim>\<open>_create_article\<close>, called without a date when the clock reads \<open>t\<close>.\<close>

definition create_article ::
  "base_scraper \<Rightarrow> int \<Rightarrow> string \<Rightarrow> string \<Rightarrow> string \<Rightarrow> string \<Rightarrow> article" where
  "create_article self t title' description' url' category' =
     Article t (py_strip title') (py_strip description') url' (cfg_source self)
       (if category' \<noteq> [] then category' else cfg_category self) None"

text \<open>
  What the scrapers take from outside the program: \<^verbatim>\<open>feedparser.parse(url).entries\<close>,
  the \<^verbatim>\<open>article\<close> elements of the page that \<^verbatim>\<open>requests.get\<close> and BeautifulSoup give
  (either may raise), and \<^verbatim>\<open>BeautifulSoup(s, 'html.parser').get_text(strip=True)\<close>.
  An entry of a feed holds what the scrapers read from it; a field that is missing is
  \<open>None\<close>. An \<^verbatim>\<open>article\<close> element holds its links with an \<^verbatim>\<open>href\<close>, the text of its
  first heading of each kind, and the text of its first summary paragraph.
\<close>

record feed_entry =
  entry_title :: "string option"
  entry_link :: "string option"
  entry_summary :: "string option"
  published_parsed :: "int list option"
  entry_links :: "(string \<times> string) list list option"

record anchor =
  href :: string
  anchor_text :: string
  anchor_headings :: "(string \<times> string) list"

record article_elem =
  anchors :: "anchor list"
  elem_headings :: "(string \<times> string) list"
  summary_paragraph :: "string option"

record net =
  feedparser_parse :: "string \<Rightarrow> error + feed_entry list"
  fetch_article_elems :: "string \<Rightarrow> error + article_elem list"
  html_get_text :: "string \<Rightarrow> error + string"

text \<open>\<^verbatim>\<open>datetime(*fields[:6]).isoformat()\<close>; \<open>None\<close> when the constructor raises (fewer than
  three fields, or a field out of its range).\<close>

definition datetime_of_fields :: "int list \<Rightarrow> datetime option" where
  "datetime_of_fields parsed =
     (let fs = take 6 parsed;
          get = (\<lambda>i. if i < length fs then fs ! i else 0)
      in if length fs < 3 then None
         else
           (let year = fs ! 0; month = fs ! 1; day = fs ! 2;
                hour = get 3; minute = get 4; second = get 5
            in if 1 \<le> year \<and> year \<le> 9999 \<and> 1 \<le> month \<and> month \<le> 12
                  \<and> 1 \<le> day \<and> day \<le> days_in_month year month
                  \<and> 0 \<le> hour \<and> hour \<le> 23 \<and> 0 \<le> minute \<and> minute \<le> 59
                  \<and> 0 \<le> second \<and> second \<le> 59
               then Some (mk_datetime year month day hour minute second 0 None)
               else None))"

definition entry_pub_date :: "feed_entry \<Rightarrow> pubdate option" where
  "entry_pub_date entry =
     (case published_parsed entry of
        None \<Rightarrow> None
      | Some parsed \<Rightarrow>
          (if parsed = [] then None
           else (case datetime_of_fields parsed of
                   None \<Rightarrow> None
                 | Some d \<Rightarrow> Some (PStr (isoformat d)))))"

text \<open>The first rule whose pattern is in the URL gives the category.\<close>

fun first_match :: "(string \<times> string) list \<Rightarrow> string \<Rightarrow> string \<Rightarrow> string" where
  "first_match [] url' dflt = dflt"
| "first_match ((pattern, category') # rules) url' dflt =
     (if contains pattern url' then category' else first_match rules url' dflt)"

text \<open>\<^verbatim>\<open>if '<' in description: description = BeautifulSoup(...).get_text(strip=True)\<close>\<close>

definition strip_markup :: "net \<Rightarrow> string \<Rightarrow> error + string" where
  "strip_markup n description' =
     (if CHR ''<'' \<in> set description' then html_get_text n description' else Inr description')"

text \<open>
  The body of the loop over the entries in \<^verbatim>\<open>StuffScraper.scrape\<close> (stuff\_scraper.py,
  lines 32-77): \<open>None\<close> when the entry is skipped.
\<close>

definition stuff_entry :: "base_scraper \<Rightarrow> int \<Rightarrow> feed_entry \<Rightarrow> article option" where
  "stuff_entry self t entry =
     (let title' = py_strip (case entry_title entry of None \<Rightarrow> [] | Some s \<Rightarrow> s);
          url' = py_strip (case entry_link entry of None \<Rightarrow> [] | Some s \<Rightarrow> s)
      in if title' = [] \<or> url' = [] then None
         else
           (let description' = py_strip (case entry_summary entry of None \<Rightarrow> title' | Some s \<Rightarrow> s);
                pub_date = entry_pub_date entry;
                category' =
                  first_match
                    [(''/nz-news/'', ''NZ News''), (''/world/'', ''World''), (''/sport/'', ''Sport''),
                     (''/business/'', ''Business''), (''/entertainment/'', ''Entertainment'')]
                    url' (cfg_category self)
            in Some (Article t title' description' url' (cfg_source self) category' pub_date)))"

text \<open>The loop of the three feed scrapers: the first 20 entries, the skipped ones left out.\<close>

definition feed_scrape ::
  "(feed_entry \<Rightarrow> article option) \<Rightarrow> net \<Rightarrow> base_scraper \<Rightarrow> article list" where
  "feed_scrape per_entry n self =
     (case feedparser_parse n (cfg_base_url self) of
        Inl e \<Rightarrow> []
      | Inr entries \<Rightarrow>
          (if entries = [] then []
           else List.map_filter per_entry (take 20 entries)))"

definition StuffScraper :: base_scraper where
  "StuffScraper = BaseScraper ''Stuff NZ'' ''https://www.stuff.co.nz/rss'' ''General''"

definition StuffScraper_scrape :: "net \<Rightarrow> int \<Rightarrow> base_scraper \<Rightarrow> article list" where
  "StuffScraper_scrape n t self = feed_scrape (stuff_entry self t) n self"

text \<open>\<^verbatim>\<open>RNZScraper.scrape\<close> (rnz\_scraper.py): as above, with the markup of the description
  stripped; an exception of the parser skips the entry.\<close>

definition rnz_entry :: "net \<Rightarrow> base_scraper \<Rightarrow> int \<Rightarrow> feed_entry \<Rightarrow> article option" where
  "rnz_entry n self t entry =
     (let title' = py_strip (case entry_title entry of None \<Rightarrow> [] | Some s \<Rightarrow> s);
          url' = py_strip (case entry_link entry of None \<Rightarrow> [] | Some s \<Rightarrow> s)
      in if title' = [] \<or> url' = [] then None
         else
           (case strip_markup n
                   (py_strip (case entry_summary entry of None \<Rightarrow> title' | Some s \<Rightarrow> s)) of
              Inl e \<Rightarrow> None
            | Inr description' \<Rightarrow>
                (let pub_date = entry_pub_date entry;
                     category' =
                       first_match
                         [(''/national/'', ''National''), (''/world/'', ''World''),
                          (''/political/'', ''Politics''), (''/business/'', ''Business''),
                          (''/sport/'', ''Sport'')]
                         url' (cfg_category self)
                 in Some (Article t title' description' url' (cfg_source self) category'
                            pub_date))))"

definition RNZScraper :: base_scraper where
  "RNZScraper = BaseScraper ''RNZ'' ''https://www.rnz.co.nz/rss/news'' ''News''"

definition RNZScraper_scrape :: "net \<Rightarrow> int \<Rightarrow> base_scraper \<Rightarrow> article list" where
  "RNZScraper_scrape n t self = feed_scrape (rnz_entry n self t) n self"

text \<open>\<^verbatim>\<open>OneNewsScraper.scrape\<close> (onenews\_scraper.py): a link of the aggregator is replaced
  by the first of the entry's links whose \<^verbatim>\<open>url\<close> names the site.\<close>

fun resolve_link :: "(string \<times> string) list list \<Rightarrow> string \<Rightarrow> string" where
  "resolve_link [] url' = url'"
| "resolve_link (link # links) url' =
     (case map_of link ''url'' of
        None \<Rightarrow> resolve_link links url'
      | Some u \<Rightarrow> (if contains ''1news.co.nz'' u then u else resolve_link links url'))"

definition onenews_entry :: "net \<Rightarrow> base_scraper \<Rightarrow> int \<Rightarrow> feed_entry \<Rightarrow> article option" where
  "onenews_entry n self t entry =
     (let title' = py_strip (case entry_title entry of None \<Rightarrow> [] | Some s \<Rightarrow> s);
          url' = py_strip (case entry_link entry of None \<Rightarrow> [] | Some s \<Rightarrow> s)
      in if title' = [] \<or> url' = [] then None
         else
           (let url' = (if contains ''news.google.com'' url'
                        then (case entry_links entry of
                                None \<Rightarrow> url'
                              | Some links \<Rightarrow> resolve_link links url')
                        else url')
            in case strip_markup n
                    (py_strip (case entry_summary entry of None \<Rightarrow> title' | Some s \<Rightarrow> s)) of
                 Inl e \<Rightarrow> None
               | Inr description' \<Rightarrow>
                   (let pub_date = entry_pub_date entry;
                        category' =
                          first_match
                            [(''/new-zealand/'', ''New Zealand''), (''/world/'', ''World''),
                             (''/politics/'', ''Politics''), (''/sport/'', ''Sport'')]
                            url' (cfg_category self)
                    in Some (Article t title' description' url' (cfg_source self) category'
                               pub_date))))"

definition OneNewsScraper :: base_scraper where
  "OneNewsScraper =
     BaseScraper ''1News NZ''
       ''https://news.google.com/rss/search?q=site:1news.co.nz&hl=en-NZ&gl=NZ&ceid=NZ:en''
       ''Latest''"

definition OneNewsScraper_scrape :: "net \<Rightarrow> int \<Rightarrow> base_scraper \<Rightarrow> article list" where
  "OneNewsScraper_scrape n t self = feed_scrape (onenews_entry n self t) n self"

text \<open>
  \<^verbatim>\<open>NZHeraldScraper\<close> (nzherald\_scraper.py). The loop over the links of an element
  (lines 93-109) keeps the first of the longest links that have 80 characters or more
  and none of the blocked fragments.
\<close>

definition blocked_fragments :: "string list" where
  "blocked_fragments =
     [''/photo-sales'', ''/about-'', ''/help-'', ''/terms'', ''/privacy'', ''/subscribe'',
      ''/newsletters'', ''/connect/'', ''/topic/'', ''/section/'']"

fun longest_link_loop :: "anchor list \<Rightarrow> anchor option \<Rightarrow> nat \<Rightarrow> anchor option" where
  "longest_link_loop [] longest_link max_len = longest_link"
| "longest_link_loop (link # links) longest_link max_len =
     (if href link = [] \<or> length (href link) < 80
      then longest_link_loop links longest_link max_len
      else if list_ex (\<lambda>x. contains x (href link)) blocked_fragments
      then longest_link_loop links longest_link max_len
      else if length (href link) > max_len
      then longest_link_loop links (Some link) (length (href link))
      else longest_link_loop links longest_link max_len)"

text \<open>Lines 126-132 and 136-142: the first of \<^verbatim>\<open>h1\<close> to \<^verbatim>\<open>h4\<close> that is there and has two
  words or more replaces the title.\<close>

fun heading_title :: "(string \<times> string) list \<Rightarrow> string list \<Rightarrow> string \<Rightarrow> string" where
  "heading_title hs [] title' = title'"
| "heading_title hs (tag # tags) title' =
     (case map_of hs tag of
        None \<Rightarrow> heading_title hs tags title'
      | Some heading_text \<Rightarrow>
          (if heading_text \<noteq> [] \<and> length (py_split heading_text) \<ge> 2 then heading_text
           else heading_title hs tags title'))"

definition too_short :: "string \<Rightarrow> bool" where
  "too_short title' = (title' = [] \<or> length (py_split title') < 2)"

text \<open>Lines 145-151: the title from the slug of the URL.\<close>

definition slug_title :: "string \<Rightarrow> string \<Rightarrow> string" where
  "slug_title longest_href title' =
     (let parts = py_split_char CHR ''/'' (rstrip_char CHR ''/'' longest_href)
      in if length parts \<ge> 2
         then (let slug = (if py_isupper (last parts) then parts ! (length parts - 2)
                           else last parts)
               in if slug \<noteq> [] \<and> CHR ''-'' \<in> set slug \<and> \<not> py_isupper slug
                  then py_title (py_replace_char CHR ''-'' CHR '' '' slug)
                  else title')
         else title')"

definition extract_description :: "article_elem \<Rightarrow> string \<Rightarrow> string" where
  "extract_description element title' =
     (case summary_paragraph element of
        None \<Rightarrow> title'
      | Some p \<Rightarrow> (if py_strip p \<noteq> [] then py_strip p else title'))"

text \<open>\<^verbatim>\<open>_determine_category\<close>: the rules sorted by the length of the pattern, longest
  first, the sort being stable.\<close>

definition category_map :: "(string \<times> string) list" where
  "category_map =
     [(''/nz/'', ''New Zealand''), (''/sport/'', ''Sport''), (''/world/'', ''World''),
      (''/business/'', ''Business''), (''/entertainment/'', ''Entertainment''),
      (''/lifestyle/'', ''Lifestyle''), (''/travel/'', ''Travel''), (''/politics/'', ''Politics''),
      (''/opinion/'', ''Opinion''), (''/auckland/'', ''Auckland''),
      (''/wellington/'', ''Wellington''), (''/sport/rugby/'', ''Rugby''),
      (''/sport/cricket/'', ''Cricket''), (''/sport/tennis/'', ''Tennis''),
      (''/sport/boxing/'', ''Boxing''), (''/sport/racing/'', ''Racing''),
      (''/viva/'', ''Lifestyle''), (''/kahu/'', ''Kahu'')]"

definition determine_category :: "base_scraper \<Rightarrow> string \<Rightarrow> string" where
  "determine_category self url' =
     first_match (sort_key (\<lambda>x. - int (length (fst x))) category_map)
       (py_lower url') (cfg_category self)"

text \<open>\<^verbatim>\<open>_extract_article_from_element\<close> (lines 80-177).\<close>

definition extract_article_from_element ::
  "base_scraper \<Rightarrow> int \<Rightarrow> article_elem \<Rightarrow> article option" where
  "extract_article_from_element self t article_elem' =
     (case longest_link_loop (anchors article_elem') None 0 of
        None \<Rightarrow> None
      | Some longest_link \<Rightarrow>
          (let longest_href = (if startswith (href longest_link) ''/''
                               then ''https://www.nzherald.co.nz'' @ href longest_link
                               else href longest_link);
               title' = anchor_text longest_link;
               title' = (if too_short title'
                         then heading_title (elem_headings article_elem')
                                [''h1'', ''h2'', ''h3'', ''h4''] title'
                         else title');
               title' = (if too_short title'
                         then heading_title (anchor_headings longest_link)
                                [''h1'', ''h2'', ''h3'', ''h4''] title'
                         else title');
               title' = (if too_short title' then slug_title longest_href title' else title')
           in if too_short title' then None
              else if \<not> is_valid_article title' longest_href then None
              else
                (let description' = extract_description article_elem' title';
                     category' = determine_category self longest_href
                 in Some (create_article self t title' description' longest_href category'))))"

text \<open>The loop of \<^verbatim>\<open>NZHeraldScraper.scrape\<close> (lines 54-69).\<close>

fun herald_loop ::
  "base_scraper \<Rightarrow> int \<Rightarrow> article_elem list \<Rightarrow> article list \<Rightarrow> string set \<Rightarrow> article list" where
  "herald_loop self t [] articles seen_urls = articles"
| "herald_loop self t (article_elem' # elems) articles seen_urls =
     (if int (length articles) \<ge> max_articles self then articles
      else (case extract_article_from_element self t article_elem' of
              None \<Rightarrow> herald_loop self t elems articles seen_urls
            | Some a \<Rightarrow>
                (if url a \<notin> seen_urls
                 then herald_loop self t elems (articles @ [a]) (insert (url a) seen_urls)
                 else herald_loop self t elems articles seen_urls)))"

definition NZHeraldScraper :: base_scraper where
  "NZHeraldScraper = BaseScraper ''NZ Herald'' ''https://www.nzherald.co.nz/latest-news/'' ''General''"

definition NZHeraldScraper_scrape :: "net \<Rightarrow> int \<Rightarrow> base_scraper \<Rightarrow> article list" where
  "NZHeraldScraper_scrape n t self =
     (case fetch_article_elems n (cfg_base_url self) of
        Inl e \<Rightarrow> []
      | Inr article_elements \<Rightarrow>
          (if article_elements = [] then []
           else herald_loop self t article_elements [] {}))"

text \<open>
  \<^verbatim>\<open>SCRAPER_REGISTRY\<close> and \<^verbatim>\<open>get_all_scrapers\<close> (scrapers/\_\_init\_\_.py): each registered
  class is instantiated with the arguments of its own constructor; an instance is its
  configuration and its \<^verbatim>\<open>scrape\<close> method.
\<close>

definition SCRAPER_REGISTRY :: "(base_scraper \<times> (net \<Rightarrow> int \<Rightarrow> base_scraper \<Rightarrow> article list)) list" where
  "SCRAPER_REGISTRY =
     [(StuffScraper, StuffScraper_scrape), (RNZScraper, RNZScraper_scrape),
      (OneNewsScraper, OneNewsScraper_scrape), (NZHeraldScraper, NZHeraldScraper_scrape)]"

definition get_all_scrapers :: "net \<Rightarrow> int \<Rightarrow> scraper list" where
  "get_all_scrapers n t =
     map (\<lambda>(self, scrape_method).
            \<lparr>scraper_source = cfg_source self, scrape = Inr (scrape_method n t self)\<rparr>)
         SCRAPER_REGISTRY"

section \<open>Notions of the specification\<close>

text \<open>
  Deduplication with the original order preserved: of the elements that are equal as
  keys, the first stays where it is and the later ones are dropped.
\<close>

fun dedup_first :: "json list \<Rightarrow> json list" where
  "dedup_first [] = []"
| "dedup_first (x # xs) = x # filter (\<lambda>y. key_of y \<noteq> key_of x) (dedup_first xs)"

text \<open>A lowercase term: a string without an uppercase letter.\<close>

definition lowercase_term :: "json \<Rightarrow> bool" where
  "lowercase_term v = (case v of JStr w \<Rightarrow> list_all (\<lambda>c. c \<notin> set ascii_uppercase) w | _ \<Rightarrow> False)"

text \<open>The calls of \<^verbatim>\<open>extract_content\<close> among the events of a run, by their URLs.\<close>

fun extract_calls :: "event list \<Rightarrow> string list" where
  "extract_calls [] = []"
| "extract_calls (ExtractCall u # evs) = u # extract_calls evs"
| "extract_calls (ev # evs) = extract_calls evs"

text \<open>The scrapers a run has started, by the lines \<^verbatim>\<open>Running ... scraper...\<close> of its log.\<close>

fun started :: "event list \<Rightarrow> string list" where
  "started [] = []"
| "started (Running src # evs) = src # started evs"
| "started (ev # evs) = started evs"

text \<open>
  What one scraper adds to the counters: the counters after its turn when they are zero
  before it.
\<close>

definition zero_totals :: totals where
  "zero_totals = \<lparr>total_scraped = 0, total_added = 0, total_skipped = 0\<rparr>"

definition contribution :: "world \<Rightarrow> article_service \<Rightarrow> scraper \<Rightarrow> totals" where
  "contribution w svc s = fst (process_scraper w svc (zero_totals, []) s)"

definition raises :: "scraper \<Rightarrow> bool" where
  "raises s = isl (scrape s)"

text \<open>
  The content of an article behind the extraction step: content that is there stays; an
  article without content gets the text \<^verbatim>\<open>extract_content\<close> returns for its URL, and
  keeps its empty content when the call raises or returns \<^verbatim>\<open>None\<close>.
\<close>

definition content_after :: "(string \<Rightarrow> error + string option) \<Rightarrow> string \<Rightarrow> string \<Rightarrow> string" where
  "content_after extract u c =
     (if c \<noteq> [] then c
      else (case extract u of Inr (Some c') \<Rightarrow> c' | _ \<Rightarrow> []))"

definition add_totals :: "totals \<Rightarrow> totals \<Rightarrow> totals" where
  "add_totals a b =
     \<lparr>total_scraped = total_scraped a + total_scraped b,
      total_added = total_added a + total_added b,
      total_skipped = total_skipped a + total_skipped b\<rparr>"

text \<open>
  The instant a stored date stands for, in microseconds of UTC: an aware datetime is
  its wall clock less its offset, a naive datetime is read as UTC, a string is what the
  parser makes of it, and a string the parser rejects is the current time.
  \<open>zone_time\<close> is an instant as the zone shows it: the wall clock of the zone and the
  offset the zone has at that instant.
\<close>

definition instant_of :: "datelib \<Rightarrow> int \<Rightarrow> pubdate \<Rightarrow> int" where
  "instant_of lib t pd =
     (let as_utc = (\<lambda>d. case utcoffset d of None \<Rightarrow> wall d | Some off \<Rightarrow> wall d - off * 1000000)
      in case pd of
           PDatetime d \<Rightarrow> as_utc d
         | PStr s \<Rightarrow> (case parser_parse lib t s of None \<Rightarrow> t | Some d \<Rightarrow> as_utc d))"

definition zone_time :: "tzfile \<Rightarrow> int \<Rightarrow> datetime" where
  "zone_time tz u =
     \<lparr>wall = u + tz_offset_utc tz u * 1000000, utcoffset = Some (tz_offset_utc tz u),
      tz_is_pacific = True\<rparr>"

text \<open>
  Whether the datetime that \<^verbatim>\<open>to_dict\<close> converts already carries the zone object of
  \<^verbatim>\<open>Pacific/Auckland\<close>; such a datetime is printed as it stands.
\<close>

definition carries_pacific :: "datelib \<Rightarrow> int \<Rightarrow> pubdate \<Rightarrow> bool" where
  "carries_pacific lib t pd =
     (case pd of
        PDatetime d \<Rightarrow> utcoffset d \<noteq> None \<and> tz_is_pacific d
      | PStr s \<Rightarrow> (case parser_parse lib t s of
                    None \<Rightarrow> False
                  | Some d \<Rightarrow> utcoffset d \<noteq> None \<and> tz_is_pacific d))"

text \<open>A list, as opposed to every other value of JSON.\<close>

fun is_list :: "json \<Rightarrow> bool" where
  "is_list (JArr xs) = True"
| "is_list _ = False"

section \<open>Concrete inputs\<close>

text \<open>
  An excerpt of the \<^verbatim>\<open>Pacific/Auckland\<close> table: daylight saving time (UTC+13) from
  2023-09-23T14:00Z, standard time (UTC+12) from 2024-04-06T14:00Z, daylight saving time
  again from 2024-09-28T14:00Z.
\<close>

definition auckland_excerpt :: tzfile where
  "auckland_excerpt =
     \<lparr>first_offset = 43200,
      transitions =
        [(wall (mk_datetime 2023 9 23 14 0 0 0 None), 46800),
         (wall (mk_datetime 2024 4 6 14 0 0 0 None), 43200),
         (wall (mk_datetime 2024 9 28 14 0 0 0 None), 46800)]\<rparr>"

text \<open>A date library whose parser rejects every string.\<close>

definition lib_ex :: datelib where
  "lib_ex = \<lparr>parser_parse = (\<lambda>t s. None), pacific = auckland_excerpt\<rparr>"

definition clock_ex :: "nat \<Rightarrow> int" where
  "clock_ex i = wall (mk_datetime 2024 7 1 0 0 0 0 None) + int i"

definition article_ex :: article where
  "article_ex =
     Article 0 ''Title'' ''Description'' ''https://example.org/a'' ''RNZ'' ''News''
       (Some (PDatetime (mk_datetime 2024 1 1 0 0 0 0 (Some 0))))"

definition svc_ex :: article_service where
  "svc_ex = ArticleService ''http://localhost:5000'' ''/api/articles''"

text \<open>Backends: each answers every request with one fixed response.\<close>

definition backend :: "int \<Rightarrow> string \<Rightarrow> json option \<Rightarrow> transport" where
  "backend status body parsed url' data =
     Inr \<lparr>status_code = status, body_text = body, json_body = parsed\<rparr>"

definition wire_ex :: wire where
  "wire_ex =
     \<lparr>w_title = ''Title'', w_description = ''Description'', w_url = ''https://example.org/a'',
      w_source = ''RNZ'', w_category = ''News'',
      w_publishedDate = ''2024-01-01T13:00:00+13:00'', w_content = [],
      w_sentimentLabel = ''neutral'', w_sentimentScore = 0, w_sentimentConfidence = 0,
      w_positiveWords = [], w_negativeWords = []\<rparr>"

text \<open>The body \<^verbatim>\<open>{"skipped": 2, "errors": null}\<close> and what \<^verbatim>\<open>response.json()\<close> makes of it.\<close>

definition body_no_added :: string where
  \<open>body_no_added = ''{"skipped": 2, "errors": null}''\<close>

definition parsed_no_added :: json where
  "parsed_no_added = JObj [(''skipped'', JInt 2), (''errors'', JNull)]"

text \<open>The body \<^verbatim>\<open>{"added": 1, "skipped": 0, "errors": 7}\<close>.\<close>

definition body_errors_int :: string where
  \<open>body_errors_int = ''{"added": 1, "skipped": 0, "errors": 7}''\<close>

definition parsed_errors_int :: json where
  "parsed_errors_int = JObj [(''added'', JInt 1), (''skipped'', JInt 0), (''errors'', JInt 7)]"

text \<open>An inference provider whose every call raises.\<close>

definition client_down :: inference where
  "client_down =
     \<lparr>text_classification = (\<lambda>s. Inl RequestException),
      text_generation = (\<lambda>s. Inl RequestException),
      json_loads = (\<lambda>s. None)\<rparr>"

text \<open>
  An inference provider whose classifier raises and whose generative model answers
  \<^verbatim>\<open>{"positive_words": ["growth", "record", "growth"], "negative_words": []}\<close>.
\<close>

definition gen_growth :: string where
  \<open>gen_growth = ''{"positive_words": ["growth", "record", "growth"], "negative_words": []}''\<close>

definition client_growth :: inference where
  "client_growth =
     \<lparr>text_classification = (\<lambda>s. Inl RequestException),
      text_generation = (\<lambda>s. Inr gen_growth),
      json_loads = (\<lambda>s. if s = gen_growth
         then Some (JObj [(''positive_words'', JArr [JStr ''growth'', JStr ''record'', JStr ''growth'']),
                          (''negative_words'', JArr [])])
         else None)\<rparr>"

text \<open>
  An inference provider whose generative model answers with nine positive words, the
  first of them capitalised.
\<close>

definition gen_nine :: string where
  \<open>gen_nine = ''{"positive_words": ["Growth", "b", "c", "d", "e", "f", "g", "h", "i"], "negative_words": []}''\<close>

definition client_nine :: inference where
  "client_nine =
     \<lparr>text_classification = (\<lambda>s. Inl RequestException),
      text_generation = (\<lambda>s. Inr gen_nine),
      json_loads = (\<lambda>s. if s = gen_nine
         then Some (JObj [(''positive_words'',
                            JArr [JStr ''Growth'', JStr ''b'', JStr ''c'', JStr ''d'', JStr ''e'',
                                  JStr ''f'', JStr ''g'', JStr ''h'', JStr ''i'']),
                          (''negative_words'', JArr [])])
         else None)\<rparr>"

text \<open>
  An inference provider without a generative model, whose classifier knows two words.
\<close>

definition client_words :: inference where
  "client_words =
     \<lparr>text_classification =
        (\<lambda>s. if s = ''good'' then Inr [\<lparr>label = ''POSITIVE'', score = 9 / 10\<rparr>]
              else if s = ''bad'' then Inr [\<lparr>label = ''negative'', score = 7 / 10\<rparr>]
              else Inl RequestException),
      text_generation = (\<lambda>s. Inl RequestException),
      json_loads = (\<lambda>s. None)\<rparr>"

text \<open>
  A world: no environment variable is set, the inference provider is down,
  \<^verbatim>\<open>extract_content\<close> finds a text for one URL and raises for every other, and the
  backend answers every batch with \<^verbatim>\<open>{"added": 3, "skipped": 2, "errors": []}\<close>.
\<close>

definition body_ok :: string where
  \<open>body_ok = ''{"added": 3, "skipped": 2, "errors": []}''\<close>

definition parsed_ok :: json where
  "parsed_ok = JObj [(''added'', JInt 3), (''skipped'', JInt 2), (''errors'', JArr [])]"

definition world_ex :: world where
  "world_ex =
     \<lparr>os_environ = Map.empty,
      hf_client = client_down,
      extract_content =
        (\<lambda>u. if u = ''https://example.org/b'' then Inr (Some ''Body'') else Inl RequestException),
      date_lib = lib_ex,
      read_clock = clock_ex,
      requests_post = backend 200 body_ok (Some parsed_ok)\<rparr>"

definition articles_ex :: "article list" where
  "articles_ex =
     [article_ex\<lparr>content := ''Kept''\<rparr>,
      article_ex\<lparr>url := ''https://example.org/b''\<rparr>,
      article_ex\<lparr>url := ''https://example.org/c''\<rparr>]"

text \<open>Four scrapers; the second raises in \<^verbatim>\<open>scrape()\<close>, the fourth finds nothing.\<close>

definition orchestrator_ex :: orchestrator where
  "orchestrator_ex =
     \<lparr>article_service = svc_ex,
      scrapers =
        [\<lparr>scraper_source = ''Stuff NZ'', scrape = Inr articles_ex\<rparr>,
         \<lparr>scraper_source = ''RNZ'', scrape = Inl ValueError\<rparr>,
         \<lparr>scraper_source = ''1News NZ'', scrape = Inr [article_ex]\<rparr>,
         \<lparr>scraper_source = ''NZ Herald'', scrape = Inr []\<rparr>]\<rparr>"

text \<open>An article whose stored date is a string that no parser accepts.\<close>

definition article_unparsable :: article where
  "article_unparsable = article_ex\<lparr>published_date := PStr ''not a date''\<rparr>"

text \<open>A date library whose parser knows one string, whatever the clock reads.\<close>

definition lib_iso :: datelib where
  "lib_iso =
     \<lparr>parser_parse =
        (\<lambda>t s. if s = ''2024-07-01T00:00:00'' then Some (mk_datetime 2024 7 1 0 0 0 0 None)
               else None),
      pacific = auckland_excerpt\<rparr>"

definition article_iso :: article where
  "article_iso = article_ex\<lparr>published_date := PStr ''2024-07-01T00:00:00''\<rparr>"

definition article_naive :: article where
  "article_naive = article_ex\<lparr>published_date := PDatetime (mk_datetime 2024 7 1 0 0 0 0 None)\<rparr>"

text \<open>
  A network: every feed has 25 entries, all alike, and the page has 25 \<^verbatim>\<open>article\<close>
  elements, all alike, each with one link of 84 characters.
\<close>

definition entry_ex :: feed_entry where
  "entry_ex =
     \<lparr>entry_title = Some ''Council votes on new harbour bridge'',
      entry_link = Some ''https://www.stuff.co.nz/nz-news/350000001/council-votes'',
      entry_summary = Some ''The council meets on Thursday.'',
      published_parsed = Some [2024, 1, 1, 0, 0, 0, 0, 1, 0],
      entry_links = None\<rparr>"

definition elem_ex :: article_elem where
  "elem_ex =
     \<lparr>anchors =
        [\<lparr>href = ''/nz/council-votes-on-the-new-harbour-bridge-after-a-long-debate/ABCDEFGHIJKLMNOPQRST/'',
          anchor_text = ''Council votes on new harbour bridge'',
          anchor_headings = []\<rparr>],
      elem_headings = [],
      summary_paragraph = None\<rparr>"

definition net_ex :: net where
  "net_ex =
     \<lparr>feedparser_parse = (\<lambda>u. Inr (replicate 25 entry_ex)),
      fetch_article_elems = (\<lambda>u. Inr (replicate 25 elem_ex)),
      html_get_text = (\<lambda>s. Inr s)\<rparr>"

text \<open>The body \<^verbatim>\<open>{"skipped": 2, "errors": "boom"}\<close>.\<close>

definition body_errors_string :: string where
  \<open>body_errors_string = ''{"skipped": 2, "errors": "boom"}''\<close>

definition parsed_errors_string :: json where
  "parsed_errors_string = JObj [(''skipped'', JInt 2), (''errors'', JStr ''boom'')]"

text \<open>
  An entry of a feed dated 9999-12-31T23:59:59, the article a scraper makes of it, and a
  date library whose parser reads the string the scraper stored.
\<close>

definition entry_far :: feed_entry where
  "entry_far = entry_ex\<lparr>published_parsed := Some [9999, 12, 31, 23, 59, 59, 4, 365, 0]\<rparr>"

definition article_far :: article where
  "article_far =
     Article 0 ''Council votes on new harbour bridge'' ''The council meets on Thursday.''
       ''https://www.stuff.co.nz/nz-news/350000001/council-votes'' ''Stuff NZ'' ''NZ News''
       (Some (PStr ''9999-12-31T23:59:59''))"

definition lib_far :: datelib where
  "lib_far =
     \<lparr>parser_parse =
        (\<lambda>t s. if s = ''9999-12-31T23:59:59'' then Some (mk_datetime 9999 12 31 23 59 59 0 None)
               else None),
      pacific = auckland_excerpt\<rparr>"

text \<open>
  A datetime that carries the zone object of \<^verbatim>\<open>Pacific/Auckland\<close>, at a wall time that
  the zone skips (2024-09-29T02:30:00), with the offset the zone gives for it.
\<close>

definition article_gap :: article where
  "article_gap =
     article_ex\<lparr>published_date :=
       PDatetime ((mk_datetime 2024 9 29 2 30 0 0 (Some 43200))\<lparr>tz_is_pacific := True\<rparr>)\<rparr>"

section \<open>Unfolding the string functions\<close>

lemmas string_defs = py_lower_def lower_char_def ascii_uppercase_def ascii_lowercase_def

section \<open>The content-extraction toggle\<close>

text \<open>
  C7, as the code has it. Content extraction is disabled exactly when the variable
  \<^verbatim>\<open>SCRAPE_EXTRACT_CONTENT\<close> is set and its value is the empty string or, in lower case,
  one of \<^verbatim>\<open>0\<close>, \<^verbatim>\<open>false\<close>, \<^verbatim>\<open>no\<close>. For every other value, and when the variable is
  not set, it is enabled.
\<close>

theorem extract_enabled_iff:
  "(\<not> extract_enabled env) =
     (\<exists>v. env ''SCRAPE_EXTRACT_CONTENT'' = Some v
          \<and> (v = [] \<or> py_lower v = ''0'' \<or> py_lower v = ''false'' \<or> py_lower v = ''no''))"
  by (cases "env ''SCRAPE_EXTRACT_CONTENT''")
     (auto simp: extract_enabled_def getenv_def string_defs)

theorem extract_enabled_iff_witness:
  "\<not> extract_enabled (Map.empty(''SCRAPE_EXTRACT_CONTENT'' \<mapsto> ''No''))
   \<and> extract_enabled (Map.empty(''SCRAPE_EXTRACT_CONTENT'' \<mapsto> ''yes''))
   \<and> extract_enabled Map.empty"
  using extract_enabled_iff [of "Map.empty(''SCRAPE_EXTRACT_CONTENT'' \<mapsto> ''No'')"]
        extract_enabled_iff [of "Map.empty(''SCRAPE_EXTRACT_CONTENT'' \<mapsto> ''yes'')"]
        extract_enabled_iff [of "Map.empty"]
  by (simp add: string_defs)

text \<open>
  The claim as the specification words it fails when the variable is set to the empty
  string: that value is none of \<^verbatim>\<open>0\<close>, \<^verbatim>\<open>false\<close>, \<^verbatim>\<open>no\<close>, and extraction is disabled.
\<close>

theorem extract_enabled_empty_counterexample:
  "\<not> extract_enabled (Map.empty(''SCRAPE_EXTRACT_CONTENT'' \<mapsto> ''''))
   \<and> '''' \<notin> set [''0'', ''false'', ''no'']"
  by (simp add: extract_enabled_def getenv_def)

section \<open>The batch submission\<close>

lemma to_dict_article_ex: "to_dict lib_ex (clock_ex 0) article_ex = Inr wire_ex"
  by code_simp

lemma to_dict_all_article_ex: "to_dict_all lib_ex clock_ex 0 [article_ex] = Inr [wire_ex]"
  by (simp add: to_dict_article_ex)

text \<open>
  C10, as the code has it. The backend answers 200 with a JSON object \<open>d\<close>. When
  \<^verbatim>\<open>errors\<close> is missing, null or an array, the method returns: the \<^verbatim>\<open>added\<close> and
  \<^verbatim>\<open>skipped\<close> of the object, 0 in place of each that is missing, and as \<^verbatim>\<open>errors\<close> the
  array, or the empty list when \<^verbatim>\<open>errors\<close> is missing or null. A string in \<^verbatim>\<open>errors\<close>
  that is not empty is returned as it is, with the same counts. Whatever the object
  holds, a result that is returned has these counts and never has null as \<^verbatim>\<open>errors\<close>.
\<close>

theorem batch_defaults:
  assumes "to_dict_all lib clock 0 articles = Inr data"
    and "post (articles_url svc @ ''/batch'') data = Inr resp"
    and "status_code resp = 200"
    and "json_body resp = Some (JObj d)"
  shows "(map_of d ''errors'' = None \<or> map_of d ''errors'' = Some JNull
            \<or> (\<exists>xs. map_of d ''errors'' = Some (JArr xs)) \<longrightarrow>
            create_articles_batch lib clock post svc articles =
              Inr \<lparr>added = (case map_of d ''added'' of None \<Rightarrow> JInt 0 | Some v \<Rightarrow> v),
                   skipped = (case map_of d ''skipped'' of None \<Rightarrow> JInt 0 | Some v \<Rightarrow> v),
                   errors = (case map_of d ''errors'' of
                               Some (JArr xs) \<Rightarrow> JArr xs | _ \<Rightarrow> JArr [])\<rparr>)
       \<and> (\<forall>s. map_of d ''errors'' = Some (JStr s) \<and> s \<noteq> [] \<longrightarrow>
            create_articles_batch lib clock post svc articles =
              Inr \<lparr>added = (case map_of d ''added'' of None \<Rightarrow> JInt 0 | Some v \<Rightarrow> v),
                   skipped = (case map_of d ''skipped'' of None \<Rightarrow> JInt 0 | Some v \<Rightarrow> v),
                   errors = JStr s\<rparr>)
       \<and> (\<forall>r. create_articles_batch lib clock post svc articles = Inr r \<longrightarrow>
              added r = (case map_of d ''added'' of None \<Rightarrow> JInt 0 | Some v \<Rightarrow> v)
            \<and> skipped r = (case map_of d ''skipped'' of None \<Rightarrow> JInt 0 | Some v \<Rightarrow> v)
            \<and> errors r \<noteq> JNull)"
  (is "(?valid \<longrightarrow> ?defaults) \<and> ?string \<and> ?returned")
proof (intro conjI)
  show "?valid \<longrightarrow> ?defaults"
  proof
    assume v: ?valid
    show ?defaults
    proof (cases "map_of d ''errors''")
      case None
      then show ?thesis
        using assms by (simp add: create_articles_batch_def dict_get_def)
    next
      case (Some e)
      with v have "e = JNull \<or> (\<exists>xs. e = JArr xs)" by auto
      then show ?thesis
      proof
        assume "e = JNull"
        then show ?thesis
          using assms Some by (simp add: create_articles_batch_def dict_get_def)
      next
        assume "\<exists>xs. e = JArr xs"
        then obtain xs where "e = JArr xs" by blast
        then show ?thesis
          using assms Some by (cases xs) (simp_all add: create_articles_batch_def dict_get_def)
      qed
    qed
  qed
  show ?string
    using assms by (simp add: create_articles_batch_def dict_get_def)
  show ?returned
  proof (intro allI impI)
    fix r
    assume r: "create_articles_batch lib clock post svc articles = Inr r"
    have a: "(case map_of d ''added'' of None \<Rightarrow> JInt 0 | Some v \<Rightarrow> v)
             = dict_get d ''added'' (JInt 0)"
      and k: "(case map_of d ''skipped'' of None \<Rightarrow> JInt 0 | Some v \<Rightarrow> v)
             = dict_get d ''skipped'' (JInt 0)"
      by (simp_all add: dict_get_def)
    show "added r = (case map_of d ''added'' of None \<Rightarrow> JInt 0 | Some v \<Rightarrow> v)
        \<and> skipped r = (case map_of d ''skipped'' of None \<Rightarrow> JInt 0 | Some v \<Rightarrow> v)
        \<and> errors r \<noteq> JNull"
      unfolding a k using assms r
      by (auto simp: create_articles_batch_def Let_def split: sum.splits if_splits)
  qed
qed

theorem batch_defaults_witness:
  "create_articles_batch lib_ex clock_ex (backend 200 body_no_added (Some parsed_no_added))
     svc_ex [article_ex]
   = Inr \<lparr>added = JInt 0, skipped = JInt 2, errors = JArr []\<rparr>
   \<and> create_articles_batch lib_ex clock_ex (backend 200 body_ok (Some parsed_ok))
     svc_ex [article_ex]
   = Inr \<lparr>added = JInt 3, skipped = JInt 2, errors = JArr []\<rparr>"
  using batch_defaults [of lib_ex clock_ex "[article_ex]" "[wire_ex]"
      "backend 200 body_no_added (Some parsed_no_added)" svc_ex
      "\<lparr>status_code = 200, body_text = body_no_added, json_body = Some parsed_no_added\<rparr>"
      "[(''skipped'', JInt 2), (''errors'', JNull)]"]
    batch_defaults [of lib_ex clock_ex "[article_ex]" "[wire_ex]"
      "backend 200 body_ok (Some parsed_ok)" svc_ex
      "\<lparr>status_code = 200, body_text = body_ok, json_body = Some parsed_ok\<rparr>"
      "[(''added'', JInt 3), (''skipped'', JInt 2), (''errors'', JArr [])]"]
  by (simp add: to_dict_article_ex backend_def parsed_no_added_def parsed_ok_def)

text \<open>
  The claim as the specification words it fails for the body
  \<^verbatim>\<open>{"skipped": 2, "errors": "boom"}\<close>: a count is missing, so the claim applies, and the
  \<^verbatim>\<open>errors\<close> that is returned is the string, not a list.
\<close>

theorem batch_errors_string_counterexample:
  "create_articles_batch lib_ex clock_ex
     (backend 200 body_errors_string (Some parsed_errors_string)) svc_ex [article_ex]
   = Inr \<lparr>added = JInt 0, skipped = JInt 2, errors = JStr ''boom''\<rparr>
   \<and> \<not> is_list (JStr ''boom'')"
  by (simp add: create_articles_batch_def to_dict_article_ex backend_def
        parsed_errors_string_def dict_get_def)

text \<open>
  The four outcomes the specification lists for the batch submission, once the articles
  are serialised: the three values of a well-formed 200 answer are returned as they are,
  a 200 answer that is no JSON or no object gives the empty result, another status gives
  the shortened body as the one error, and a \<^verbatim>\<open>RequestException\<close> gives the sentinel.
\<close>

lemma batch_result_cases:
  assumes "to_dict_all lib clock 0 articles = Inr data"
  shows "post (articles_url svc @ ''/batch'') data = Inr resp \<Longrightarrow> status_code resp = 200 \<Longrightarrow>
           json_body resp = Some (JObj d) \<Longrightarrow> map_of d ''added'' = Some (JInt a) \<Longrightarrow>
           map_of d ''skipped'' = Some (JInt k) \<Longrightarrow> map_of d ''errors'' = Some (JArr es) \<Longrightarrow>
           create_articles_batch lib clock post svc articles
             = Inr \<lparr>added = JInt a, skipped = JInt k, errors = JArr es\<rparr>"
    and "post (articles_url svc @ ''/batch'') data = Inr resp \<Longrightarrow> status_code resp = 200 \<Longrightarrow>
           json_body resp = None \<or> (\<exists>v. json_body resp = Some v \<and> (\<forall>d. v \<noteq> JObj d)) \<Longrightarrow>
           create_articles_batch lib clock post svc articles
             = Inr \<lparr>added = JInt 0, skipped = JInt 0, errors = JArr []\<rparr>"
    and "post (articles_url svc @ ''/batch'') data = Inr resp \<Longrightarrow> status_code resp \<noteq> 200 \<Longrightarrow>
           create_articles_batch lib clock post svc articles
             = Inr \<lparr>added = JInt 0, skipped = JInt 0,
                    errors = JArr [JStr (truncate_text (body_text resp) 500)]\<rparr>"
    and "post (articles_url svc @ ''/batch'') data = Inl RequestException \<Longrightarrow>
           create_articles_batch lib clock post svc articles
             = Inr \<lparr>added = JInt 0, skipped = JInt 0,
                    errors = JArr [JStr ''request exception'']\<rparr>"
proof -
  show "post (articles_url svc @ ''/batch'') data = Inr resp \<Longrightarrow> status_code resp = 200 \<Longrightarrow>
           json_body resp = Some (JObj d) \<Longrightarrow> map_of d ''added'' = Some (JInt a) \<Longrightarrow>
           map_of d ''skipped'' = Some (JInt k) \<Longrightarrow> map_of d ''errors'' = Some (JArr es) \<Longrightarrow>
           create_articles_batch lib clock post svc articles
             = Inr \<lparr>added = JInt a, skipped = JInt k, errors = JArr es\<rparr>"
    using assms by (cases es) (simp_all add: create_articles_batch_def dict_get_def)
  show "post (articles_url svc @ ''/batch'') data = Inr resp \<Longrightarrow> status_code resp = 200 \<Longrightarrow>
           json_body resp = None \<or> (\<exists>v. json_body resp = Some v \<and> (\<forall>d. v \<noteq> JObj d)) \<Longrightarrow>
           create_articles_batch lib clock post svc articles
             = Inr \<lparr>added = JInt 0, skipped = JInt 0, errors = JArr []\<rparr>"
    using assms
    by (auto simp: create_articles_batch_def dict_get_def split: json.splits)
  show "post (articles_url svc @ ''/batch'') data = Inr resp \<Longrightarrow> status_code resp \<noteq> 200 \<Longrightarrow>
           create_articles_batch lib clock post svc articles
             = Inr \<lparr>added = JInt 0, skipped = JInt 0,
                    errors = JArr [JStr (truncate_text (body_text resp) 500)]\<rparr>"
    using assms by (simp add: create_articles_batch_def)
  show "post (articles_url svc @ ''/batch'') data = Inl RequestException \<Longrightarrow>
           create_articles_batch lib clock post svc articles
             = Inr \<lparr>added = JInt 0, skipped = JInt 0,
                    errors = JArr [JStr ''request exception'']\<rparr>"
    using assms by (simp add: create_articles_batch_def)
qed

text \<open>
  C2. The method does raise to its caller. The backend answers 200 with the
  object \<^verbatim>\<open>{"added": 1, "skipped": 0, "errors": 7}\<close>: \<^verbatim>\<open>errors\<close> is truthy, so it is
  kept, and \<^verbatim>\<open>len(errors)\<close> raises \<^verbatim>\<open>TypeError\<close>, which the handler for
  \<^verbatim>\<open>RequestException\<close> does not catch.
\<close>

theorem batch_errors_int_raises:
  "create_articles_batch lib_ex clock_ex (backend 200 body_errors_int (Some parsed_errors_int))
     svc_ex [article_ex]
   = Inl TypeError"
  by (simp add: create_articles_batch_def to_dict_article_ex backend_def
        parsed_errors_int_def dict_get_def)

section \<open>The sentiment enricher\<close>

lemma filter_dedup_first:
  "filter (\<lambda>y. key_of y \<noteq> k) (dedup_first zs) = dedup_first (filter (\<lambda>y. key_of y \<noteq> k) zs)"
proof (induction zs)
  case Nil
  then show ?case by simp
next
  case (Cons z zs)
  have comm: "filter (\<lambda>y. key_of y \<noteq> k) (filter (\<lambda>y. key_of y \<noteq> key_of z) (dedup_first zs))
            = filter (\<lambda>y. key_of y \<noteq> key_of z) (filter (\<lambda>y. key_of y \<noteq> k) (dedup_first zs))"
    by (simp add: conj_commute)
  show ?case
  proof (cases "key_of z = k")
    case True
    have l: "filter (\<lambda>y. key_of y \<noteq> k) (dedup_first (z # zs))
           = filter (\<lambda>y. key_of y \<noteq> k) (dedup_first zs)"
      using True by simp
    have r: "dedup_first (filter (\<lambda>y. key_of y \<noteq> k) (z # zs))
           = dedup_first (filter (\<lambda>y. key_of y \<noteq> k) zs)"
      using True by simp
    show ?thesis unfolding l r by (rule Cons.IH)
  next
    case False
    then show ?thesis using Cons comm by simp
  qed
qed

lemma fromkeys_loop_dedup:
  "list_all hashable xs \<Longrightarrow>
   fromkeys_loop keys xs
     = Inr (keys @ dedup_first (filter (\<lambda>y. key_of y \<notin> key_of ` set keys) xs))"
proof (induction xs arbitrary: keys)
  case Nil
  then show ?case by simp
next
  case (Cons x xs)
  show ?case
  proof (cases "key_of x \<in> key_of ` set keys")
    case True
    then show ?thesis using Cons by simp
  next
    case False
    have "filter (\<lambda>y. key_of y \<notin> key_of ` set (keys @ [x])) xs
        = filter (\<lambda>y. key_of y \<noteq> key_of x) (filter (\<lambda>y. key_of y \<notin> key_of ` set keys) xs)"
      by (auto intro: filter_cong)
    then show ?thesis using Cons False by (simp add: filter_dedup_first)
  qed
qed

lemma list_dict_fromkeys_array:
  "list_all hashable xs \<Longrightarrow> list_dict_fromkeys (JArr xs) = Inr (dedup_first xs)"
  by (simp add: list_dict_fromkeys_def fromkeys_loop_dedup)

lemma dedup_first_Nil_iff: "dedup_first xs = [] \<longleftrightarrow> xs = []"
  by (cases xs) simp_all

lemma classify_loop_all_fail:
  "(\<And>s. isl (text_classification client s)) \<Longrightarrow> classify_loop client ws p n = (p, n)"
proof (induction ws)
  case Nil
  then show ?case by simp
next
  case (Cons w ws)
  then obtain e where "text_classification client w = Inl e"
    by (metis isl_def)
  then show ?case using Cons by simp
qed

text \<open>
  C4. When every call of the inference provider raises, the result is the default:
  label \<^verbatim>\<open>neutral\<close>, score 0, confidence 0 and two empty word lists. When the
  generative model answers and the structured extraction leaves at least one word list
  that is not empty, these two lists are the result and the only remote calls are the
  classification of the text and the generation: no word is classified. The lists of the
  structured extraction are the arrays \<^verbatim>\<open>positive_words\<close> and \<^verbatim>\<open>negative_words\<close> of the
  answer's JSON object, deduplicated with the order of first occurrences.
\<close>

theorem analyze_cascade:
  "((\<forall>s. isl (text_classification client s)) \<and> (\<forall>s. isl (text_generation client s))
      \<longrightarrow> fst (analyze_text_sentiment_and_terms client title' description')
            = SentimentTerms_default)
   \<and> (\<forall>gen ps ns.
         combined_text title' description' \<noteq> []
         \<and> text_generation client (PROMPT @ combined_text title' description') = Inr gen
         \<and> structured_terms (json_loads client) gen = (ps, ns) \<and> (ps \<noteq> [] \<or> ns \<noteq> [])
        \<longrightarrow> st_positive_words (fst (analyze_text_sentiment_and_terms client title' description')) = ps
            \<and> st_negative_words (fst (analyze_text_sentiment_and_terms client title' description')) = ns
            \<and> snd (analyze_text_sentiment_and_terms client title' description')
                = [Classify (combined_text title' description'),
                   Generate (PROMPT @ combined_text title' description')])
   \<and> (\<forall>gen data xs ys.
         parse_json_block (json_loads client) gen = JObj data
         \<and> map_of data ''positive_words'' = Some (JArr xs)
         \<and> map_of data ''negative_words'' = Some (JArr ys)
         \<and> list_all hashable xs \<and> list_all hashable ys
        \<longrightarrow> structured_terms (json_loads client) gen = (dedup_first xs, dedup_first ys))"
  (is "(?down \<longrightarrow> ?dflt) \<and> ?structured \<and> ?dedup")
proof (intro conjI)
  show "?down \<longrightarrow> ?dflt"
  proof
    assume down: ?down
    obtain e1 e2 where e1: "text_classification client (combined_text title' description') = Inl e1"
      and e2: "text_generation client (PROMPT @ combined_text title' description') = Inl e2"
      using down by (metis isl_def)
    have loop: "\<And>ws. classify_loop client ws [] [] = ([], [])"
      using down by (simp add: classify_loop_all_fail)
    show ?dflt
      by (simp add: analyze_text_sentiment_and_terms_def e1 e2 loop
            classify_words_with_sentiment_model_def sort_ranked_def
            SentimentTerms_default_def Let_def)
  qed
  show ?structured
    by (auto simp: analyze_text_sentiment_and_terms_def Let_def
             split: prod.splits sum.splits list.splits)
  show ?dedup
    by (auto simp: structured_terms_def dict_get_def list_dict_fromkeys_array)
qed

theorem analyze_cascade_witness:
  "fst (analyze_text_sentiment_and_terms client_down ''Strong growth'' ''Record revenue'')
     = \<lparr>st_label = ''neutral'', st_score = 0, st_confidence = 0,
        st_positive_words = [], st_negative_words = []\<rparr>
   \<and> st_positive_words
        (fst (analyze_text_sentiment_and_terms client_growth ''Strong growth'' ''Record revenue''))
       = [JStr ''growth'', JStr ''record'']
   \<and> st_negative_words
        (fst (analyze_text_sentiment_and_terms client_growth ''Strong growth'' ''Record revenue''))
       = []
   \<and> snd (analyze_text_sentiment_and_terms client_growth ''Strong growth'' ''Record revenue'')
       = [Classify ''Strong growth Record revenue'',
          Generate (PROMPT @ ''Strong growth Record revenue'')]"
proof -
  have ct: "combined_text ''Strong growth'' ''Record revenue'' = ''Strong growth Record revenue''"
    by code_simp
  have down: "(\<forall>s. isl (text_classification client_down s))
            \<and> (\<forall>s. isl (text_generation client_down s))"
    by (simp add: client_down_def)
  have gen: "text_generation client_growth (PROMPT @ ''Strong growth Record revenue'')
             = Inr gen_growth"
    by (simp add: client_growth_def)
  have st: "structured_terms (json_loads client_growth) gen_growth
            = ([JStr ''growth'', JStr ''record''], [])"
    by code_simp
  note a = analyze_cascade [of client_down "''Strong growth''" "''Record revenue''"]
  note b = analyze_cascade [of client_growth "''Strong growth''" "''Record revenue''"]
  from a down have 1: "fst (analyze_text_sentiment_and_terms client_down ''Strong growth''
      ''Record revenue'') = SentimentTerms_default"
    by blast
  from b have "\<forall>gen ps ns.
         combined_text ''Strong growth'' ''Record revenue'' \<noteq> []
         \<and> text_generation client_growth
              (PROMPT @ combined_text ''Strong growth'' ''Record revenue'') = Inr gen
         \<and> structured_terms (json_loads client_growth) gen = (ps, ns) \<and> (ps \<noteq> [] \<or> ns \<noteq> [])
        \<longrightarrow> st_positive_words (fst (analyze_text_sentiment_and_terms client_growth
                ''Strong growth'' ''Record revenue'')) = ps
            \<and> st_negative_words (fst (analyze_text_sentiment_and_terms client_growth
                ''Strong growth'' ''Record revenue'')) = ns
            \<and> snd (analyze_text_sentiment_and_terms client_growth ''Strong growth''
                ''Record revenue'')
                = [Classify (combined_text ''Strong growth'' ''Record revenue''),
                   Generate (PROMPT @ combined_text ''Strong growth'' ''Record revenue'')]"
    by blast
  from this [rule_format, of gen_growth "[JStr ''growth'', JStr ''record'']" "[]"] gen st
  have 2: "st_positive_words (fst (analyze_text_sentiment_and_terms client_growth
                ''Strong growth'' ''Record revenue'')) = [JStr ''growth'', JStr ''record'']
          \<and> st_negative_words (fst (analyze_text_sentiment_and_terms client_growth
                ''Strong growth'' ''Record revenue'')) = []
          \<and> snd (analyze_text_sentiment_and_terms client_growth ''Strong growth''
                ''Record revenue'')
                = [Classify ''Strong growth Record revenue'',
                   Generate (PROMPT @ ''Strong growth Record revenue'')]"
    by (simp add: ct)
  from 1 2 show ?thesis by (simp add: SentimentTerms_default_def)
qed

lemma fromkeys_loop_distinct:
  "fromkeys_loop keys xs = Inr ks \<Longrightarrow> distinct (map key_of keys) \<Longrightarrow> distinct (map key_of ks)"
  by (induction keys xs rule: fromkeys_loop.induct) (auto split: if_splits)

lemma list_dict_fromkeys_distinct:
  "list_dict_fromkeys x = Inr ks \<Longrightarrow> distinct (map key_of ks)"
  using fromkeys_loop_distinct [of "[]"]
  by (auto simp: list_dict_fromkeys_def split: sum.splits)

lemma structured_terms_distinct:
  "structured_terms loads gen = (ps, ns) \<Longrightarrow>
   distinct (map key_of ps) \<and> distinct (map key_of ns)"
  by (auto simp: structured_terms_def split: json.splits sum.splits
           dest: list_dict_fromkeys_distinct)

lemma candidate_loop_distinct:
  "distinct words \<Longrightarrow> distinct (candidate_loop limit words tokens)"
  by (induction limit words tokens rule: candidate_loop.induct) auto

lemma candidate_loop_subset:
  "set (candidate_loop limit words tokens) \<subseteq> set words \<union> set tokens"
  by (induction limit words tokens rule: candidate_loop.induct) auto

lemma findall_words_chars:
  "t \<in> set (findall_words s) \<Longrightarrow> set t \<subseteq> set s"
proof (induction s arbitrary: t rule: findall_words.induct)
  case 1
  then show ?case by simp
next
  case (2 c cs)
  show ?case
  proof (cases "is_letter c \<and> length (takeWhile is_word_char cs) \<ge> 2")
    case True
    with 2 show ?thesis
      by (auto dest: set_takeWhileD set_dropWhileD)
  next
    case False
    with 2 show ?thesis by auto
  qed
qed

lemma lower_char_not_upper: "lower_char c \<notin> set ascii_uppercase"
proof (cases "map_of (zip ascii_uppercase ascii_lowercase) c")
  case None
  have len: "length ascii_uppercase = length ascii_lowercase"
    by (simp add: ascii_uppercase_def ascii_lowercase_def)
  from None have "c \<notin> set ascii_uppercase"
    by (simp add: map_of_zip_is_None [OF len])
  with None show ?thesis by (simp add: lower_char_def)
next
  case (Some d)
  then have "(c, d) \<in> set (zip ascii_uppercase ascii_lowercase)"
    by (rule map_of_SomeD)
  then have "d \<in> set ascii_lowercase"
    by (rule set_zip_rightD)
  then have "d \<notin> set ascii_uppercase"
    by (auto simp: ascii_lowercase_def ascii_uppercase_def)
  with Some show ?thesis by (simp add: lower_char_def)
qed

lemma candidate_words_lowercase:
  "w \<in> set (extract_candidate_words text' limit) \<Longrightarrow> lowercase_term (JStr w)"
proof -
  assume "w \<in> set (extract_candidate_words text' limit)"
  then have "w \<in> set (findall_words (py_lower text'))"
    using candidate_loop_subset [of limit "[]" "findall_words (py_lower text')"]
    by (auto simp: extract_candidate_words_def)
  then have "set w \<subseteq> set (py_lower text')" by (rule findall_words_chars)
  then have "\<forall>c \<in> set w. c \<notin> set ascii_uppercase"
    using lower_char_not_upper by (auto simp: py_lower_def)
  then show ?thesis by (simp add: lowercase_term_def list_all_iff)
qed

lemma distinct_map_insort_key:
  "distinct (map g (insort_key f x xs)) \<longleftrightarrow> g x \<notin> g ` set xs \<and> distinct (map g xs)"
  by (induction xs) (auto simp: set_insort_key)

lemma distinct_map_sort_key: "distinct (map g (sort_key f xs)) \<longleftrightarrow> distinct (map g xs)"
  by (induction xs) (auto simp: distinct_map_insort_key)

lemma classify_loop_sound:
  "classify_loop client ws p n = (p', n') \<Longrightarrow> distinct ws \<Longrightarrow>
   distinct (map snd p) \<Longrightarrow> distinct (map snd n) \<Longrightarrow>
   set ws \<inter> snd ` set p = {} \<Longrightarrow> set ws \<inter> snd ` set n = {} \<Longrightarrow>
   distinct (map snd p') \<and> distinct (map snd n')
   \<and> snd ` set p' \<subseteq> snd ` set p \<union> set ws \<and> snd ` set n' \<subseteq> snd ` set n \<union> set ws"
proof (induction ws arbitrary: p n)
  case Nil
  then show ?case by auto
next
  case (Cons w ws)
  from Cons.prems show ?case
    apply (simp split: sum.splits list.splits if_splits add: Let_def)
    subgoal using Cons.IH [of p n] by auto
    subgoal using Cons.IH [of p n] by auto
    subgoal using Cons.IH [of p n] by auto
    subgoal using Cons.IH [of "p @ [(score (hd (projr (text_classification client w))), w)]" n] by auto
    subgoal using Cons.IH [of p "n @ [(score (hd (projr (text_classification client w))), w)]"] by auto
    subgoal using Cons.IH [of p n] by auto
    done
qed

lemma classify_words_bounded:
  assumes "classify_words_with_sentiment_model client text' = ((pw, nw), calls)"
  shows "distinct (map key_of pw) \<and> distinct (map key_of nw)
       \<and> list_all lowercase_term pw \<and> list_all lowercase_term nw
       \<and> length pw \<le> 8 \<and> length nw \<le> 8"
proof -
  define ws where "ws = extract_candidate_words text' 30"
  obtain p n where pn: "classify_loop client ws [] [] = (p, n)"
    by (cases "classify_loop client ws [] []")
  have dws: "distinct ws"
    by (simp add: ws_def extract_candidate_words_def candidate_loop_distinct)
  from classify_loop_sound [OF pn dws]
  have dp: "distinct (map snd p)" and dn: "distinct (map snd n)"
    and sp: "snd ` set p \<subseteq> set ws" and sn: "snd ` set n \<subseteq> set ws"
    by auto
  have pw: "pw = map (\<lambda>item. JStr (snd item)) (take 8 (sort_ranked p))"
    and nw: "nw = map (\<lambda>item. JStr (snd item)) (take 8 (sort_ranked n))"
    using assms pn by (simp_all add: classify_words_with_sentiment_model_def ws_def [symmetric])
  have key: "\<And>xs. map key_of (map (\<lambda>item. JStr (snd item)) xs) = map JStr (map snd xs)"
    by simp
  have dist: "\<And>q. distinct (map snd q) \<Longrightarrow>
      distinct (map key_of (map (\<lambda>item. JStr (snd item)) (take 8 (sort_ranked q))))"
  proof -
    fix q :: "(rat \<times> string) list"
    assume "distinct (map snd q)"
    then have "distinct (map snd (sort_ranked q))"
      by (simp add: sort_ranked_def distinct_map_sort_key)
    then have "distinct (map snd (take 8 (sort_ranked q)))"
      by (simp add: take_map [symmetric] distinct_take)
    then show "distinct (map key_of (map (\<lambda>item. JStr (snd item)) (take 8 (sort_ranked q))))"
      unfolding key by (simp add: distinct_map inj_on_def)
  qed
  have low: "\<And>q. snd ` set q \<subseteq> set ws \<Longrightarrow>
      list_all lowercase_term (map (\<lambda>item. JStr (snd item)) (take 8 (sort_ranked q)))"
  proof -
    fix q :: "(rat \<times> string) list"
    assume sub: "snd ` set q \<subseteq> set ws"
    have "set (take 8 (sort_ranked q)) \<subseteq> set q"
      using set_take_subset [of 8 "sort_ranked q"] by (simp add: sort_ranked_def)
    with sub have "\<forall>item \<in> set (take 8 (sort_ranked q)). snd item \<in> set ws"
      by auto
    then show "list_all lowercase_term (map (\<lambda>item. JStr (snd item)) (take 8 (sort_ranked q)))"
      using candidate_words_lowercase [of _ text' 30]
      by (simp add: list_all_iff ws_def)
  qed
  show ?thesis
    using dist [OF dp] dist [OF dn] low [OF sp] low [OF sn] by (simp add: pw nw)
qed

text \<open>
  C5, as the code has it. For every title and description the two word lists hold
  distinct terms (no two equal as Python values). When the structured extraction gives
  no word (the generative model raises, or both of its lists come out empty), the lists
  come from the classification of single words: then every entry is a string without an
  uppercase letter and each list has at most 8 entries.
\<close>

theorem word_lists_distinct_fallback_capped:
  "distinct (map key_of (st_positive_words (fst (analyze_text_sentiment_and_terms client title' description'))))
   \<and> distinct (map key_of (st_negative_words (fst (analyze_text_sentiment_and_terms client title' description'))))
   \<and> ((\<forall>gen. text_generation client (PROMPT @ combined_text title' description') = Inr gen
              \<longrightarrow> structured_terms (json_loads client) gen = ([], []))
        \<longrightarrow> list_all lowercase_term
              (st_positive_words (fst (analyze_text_sentiment_and_terms client title' description')))
          \<and> list_all lowercase_term
              (st_negative_words (fst (analyze_text_sentiment_and_terms client title' description')))
          \<and> length (st_positive_words (fst (analyze_text_sentiment_and_terms client title' description'))) \<le> 8
          \<and> length (st_negative_words (fst (analyze_text_sentiment_and_terms client title' description'))) \<le> 8)"
  (is "?dp \<and> ?dn \<and> (?fallback \<longrightarrow> ?capped)")
proof (cases "combined_text title' description' = []")
  case True
  then show ?thesis
    by (simp add: analyze_text_sentiment_and_terms_def SentimentTerms_default_def)
next
  case False
  obtain pw nw calls where fb:
    "classify_words_with_sentiment_model client (combined_text title' description')
       = ((pw, nw), calls)"
    by (metis surj_pair)
  note b = classify_words_bounded [OF fb]
  show ?thesis
  proof (cases "text_generation client (PROMPT @ combined_text title' description')")
    case (Inl e)
    then show ?thesis
      using False fb b
      by (simp add: analyze_text_sentiment_and_terms_def Let_def split: prod.splits)
  next
    case (Inr gen)
    obtain ps ns where st: "structured_terms (json_loads client) gen = (ps, ns)"
      by (metis surj_pair)
    note d = structured_terms_distinct [OF st]
    show ?thesis
    proof (cases "ps = [] \<and> ns = []")
      case True
      then show ?thesis
        using False fb b Inr st
        by (simp add: analyze_text_sentiment_and_terms_def Let_def split: prod.splits)
    next
      case nonempty: False
      then show ?thesis
        using False Inr st d
        by (auto simp: analyze_text_sentiment_and_terms_def Let_def split: prod.splits)
    qed
  qed
qed

theorem word_lists_witness:
  "list_all lowercase_term
     (st_positive_words (fst (analyze_text_sentiment_and_terms client_words ''The Good'' ''the bad'')))
   \<and> length (st_positive_words (fst (analyze_text_sentiment_and_terms client_words ''The Good'' ''the bad''))) \<le> 8
   \<and> distinct (map key_of
        (st_positive_words (fst (analyze_text_sentiment_and_terms client_words ''The Good'' ''the bad''))))"
  using word_lists_distinct_fallback_capped [of client_words "''The Good''" "''the bad''"]
  by (simp add: client_words_def)

text \<open>
  The claim as the specification words it fails when the generative model answers with
  nine words, one of them capitalised: the lists of the structured extraction are
  deduplicated, but neither cut to 8 entries nor put in lower case.
\<close>

theorem nine_words_counterexample:
  "length (st_positive_words
      (fst (analyze_text_sentiment_and_terms client_nine ''Strong growth'' ''Record revenue''))) = 9
   \<and> \<not> list_all lowercase_term (st_positive_words
      (fst (analyze_text_sentiment_and_terms client_nine ''Strong growth'' ''Record revenue'')))"
  by code_simp

section \<open>The orchestrator\<close>

lemma extract_calls_append: "extract_calls (xs @ ys) = extract_calls xs @ extract_calls ys"
  by (induction xs rule: extract_calls.induct) auto

lemma started_append: "started (xs @ ys) = started xs @ started ys"
  by (induction xs rule: started.induct) auto

lemma extract_calls_RemoteCall: "extract_calls (map RemoteCall cs) = []"
  by (induction cs) auto

lemma started_RemoteCall: "started (map RemoteCall cs) = []"
  by (induction cs) auto

lemma enrich_sentiment_frame:
  "content (fst (enrich_sentiment client art)) = content art
   \<and> url (fst (enrich_sentiment client art)) = url art
   \<and> extract_calls (snd (enrich_sentiment client art)) = []
   \<and> started (snd (enrich_sentiment client art)) = []"
  by (simp add: enrich_sentiment_def extract_calls_RemoteCall started_RemoteCall split_beta)

lemma enrich_all_frame:
  "map content (fst (enrich_all client arts)) = map content arts
   \<and> map url (fst (enrich_all client arts)) = map url arts
   \<and> extract_calls (snd (enrich_all client arts)) = []
   \<and> started (snd (enrich_all client arts)) = []"
proof (induction arts)
  case Nil
  then show ?case by simp
next
  case (Cons a arts)
  then show ?case
    using enrich_sentiment_frame [of client a]
    by (simp add: extract_calls_append started_append split_beta)
qed

lemma extract_one_content:
  "content (fst (extract_one extract art)) = content_after extract (url art) (content art)
   \<and> url (fst (extract_one extract art)) = url art
   \<and> extract_calls (snd (extract_one extract art)) = (if content art = [] then [url art] else [])
   \<and> started (snd (extract_one extract art)) = []"
  by (simp add: extract_one_def content_after_def split: sum.splits option.splits)

lemma extract_all_content:
  "map content (fst (extract_all extract arts))
     = map (\<lambda>a. content_after extract (url a) (content a)) arts
   \<and> extract_calls (snd (extract_all extract arts)) = map url (filter (\<lambda>a. content a = []) arts)
   \<and> started (snd (extract_all extract arts)) = []"
proof (induction arts)
  case Nil
  then show ?case by simp
next
  case (Cons a arts)
  then show ?case
    using extract_one_content [of "extract" a]
    by (simp add: extract_calls_append started_append split_beta)
qed

lemma map2_content_url:
  "map content xs = map content ys \<Longrightarrow> map url xs = map url ys \<Longrightarrow>
   map (\<lambda>a. f (url a) (content a)) xs = map (\<lambda>a. f (url a) (content a)) ys
   \<and> map url (filter (\<lambda>a. content a = []) xs) = map url (filter (\<lambda>a. content a = []) ys)"
proof (induction xs arbitrary: ys)
  case Nil
  then show ?case by simp
next
  case (Cons x xs)
  then obtain y ys' where "ys = y # ys'" by (cases ys) auto
  with Cons show ?case by auto
qed

text \<open>
  C9. Behind the enrichment of the articles of one scraper, an article that had content
  has the same content; an article without content has the text that
  \<^verbatim>\<open>extract_content\<close> returned for it, and still has no content when the toggle is off
  or the call raised or returned nothing. \<^verbatim>\<open>extract_content\<close> is called for the articles
  without content, in their order, and for no other article.
\<close>

theorem enrich_content:
  "map content (fst (enrich w arts))
     = map (\<lambda>a. if extract_enabled (os_environ w)
                 then content_after (extract_content w) (url a) (content a)
                 else content a) arts
   \<and> extract_calls (snd (enrich w arts))
     = (if extract_enabled (os_environ w)
        then map url (filter (\<lambda>a. content a = []) arts) else [])"
proof -
  note f = enrich_all_frame [of "hf_client w" arts]
  note e = extract_all_content [of "extract_content w" "fst (enrich_all (hf_client w) arts)"]
  note m = map2_content_url [of "fst (enrich_all (hf_client w) arts)" arts
      "content_after (extract_content w)"]
  show ?thesis
    using f e m
    by (simp add: enrich_def extract_calls_append split_beta)
qed

theorem enrich_content_witness:
  "map content (fst (enrich world_ex articles_ex)) = [''Kept'', ''Body'', '''']
   \<and> extract_calls (snd (enrich world_ex articles_ex))
       = [''https://example.org/b'', ''https://example.org/c'']"
proof -
  have r1: "map (\<lambda>a. if extract_enabled (os_environ world_ex)
                 then content_after (extract_content world_ex) (url a) (content a)
                 else content a) articles_ex = [''Kept'', ''Body'', '''']"
    by code_simp
  have r2: "(if extract_enabled (os_environ world_ex)
        then map url (filter (\<lambda>a. content a = []) articles_ex) else [])
       = [''https://example.org/b'', ''https://example.org/c'']"
    by code_simp
  show ?thesis
    using enrich_content [of world_ex articles_ex] unfolding r1 r2 by simp
qed

lemma py_iadd_shift:
  "py_iadd n x = (case py_iadd 0 x of Inl e \<Rightarrow> Inl e | Inr d \<Rightarrow> Inr (n + d))"
  by (cases x) simp_all

lemma started_enrich: "started (snd (enrich w arts)) = []"
  using enrich_all_frame [of "hf_client w" arts]
        extract_all_content [of "extract_content w" "fst (enrich_all (hf_client w) arts)"]
  by (simp add: enrich_def started_append split_beta)

lemma process_scraper_started:
  "started (snd (process_scraper w svc (tot, evs) s)) = started evs @ [scraper_source s]"
  by (simp add: process_scraper_def Let_def split_beta started_append started_enrich
           split: sum.splits)

lemma process_scraper_additive:
  "fst (process_scraper w svc (tot, evs) s) = add_totals tot (contribution w svc s)"
  unfolding contribution_def process_scraper_def
  by (simp add: Let_def split_beta add_totals_def zero_totals_def
        py_iadd_shift [of "total_added tot"] py_iadd_shift [of "total_skipped tot"]
        py_iadd_shift [of "total_scraped tot"]
           split: sum.splits)

lemma contribution_raises: "raises s \<Longrightarrow> contribution w svc s = zero_totals"
  by (cases "scrape s") (simp_all add: raises_def contribution_def process_scraper_def)

lemma scrape_loop_started:
  "started (snd (foldl (process_scraper w svc) (tot, evs) ss))
     = started evs @ map scraper_source ss"
proof (induction ss arbitrary: tot evs)
  case Nil
  then show ?case by simp
next
  case (Cons s ss)
  obtain tot' evs' where p: "process_scraper w svc (tot, evs) s = (tot', evs')"
    by (metis surj_pair)
  have "started evs' = started evs @ [scraper_source s]"
    using process_scraper_started [of w svc tot evs s] by (simp add: p)
  then show ?case using Cons [of tot' evs'] by (simp add: p)
qed

lemma scrape_loop_totals:
  "fst (foldl (process_scraper w svc) (tot, evs) ss)
     = foldl add_totals tot (map (contribution w svc) ss)"
proof (induction ss arbitrary: tot evs)
  case Nil
  then show ?case by simp
next
  case (Cons s ss)
  obtain tot' evs' where p: "process_scraper w svc (tot, evs) s = (tot', evs')"
    by (metis surj_pair)
  have "tot' = add_totals tot (contribution w svc s)"
    using process_scraper_additive [of w svc tot evs s] by (simp add: p)
  then show ?case using Cons [of tot' evs'] by (simp add: p)
qed

lemma foldl_add_totals:
  "foldl add_totals tot cs =
     \<lparr>total_scraped = total_scraped tot + sum_list (map total_scraped cs),
      total_added = total_added tot + sum_list (map total_added cs),
      total_skipped = total_skipped tot + sum_list (map total_skipped cs)\<rparr>"
  by (induction cs arbitrary: tot) (simp_all add: add_totals_def)

lemma sum_list_not_raising:
  assumes "\<And>s. raises s \<Longrightarrow> f s = (0::int)"
  shows "sum_list (map f ss) = sum_list (map f (filter (\<lambda>s. \<not> raises s) ss))"
  using assms by (induction ss) simp_all

text \<open>
  C1. A run starts every scraper of the list, in the order of the list, whatever any of
  them does. A scraper whose \<^verbatim>\<open>scrape()\<close> raises leaves each of the three counters as
  it was. So the counters a run returns are the sums, over the scrapers that did not
  raise, of what each of them added.
\<close>

theorem scrape_all_resilient:
  "started (snd (scrape_all w self)) = map scraper_source (scrapers self)
   \<and> (\<forall>s tot evs. raises s \<longrightarrow>
          fst (process_scraper w (article_service self) (tot, evs) s) = tot)
   \<and> total_scraped (fst (scrape_all w self))
       = (\<Sum>s \<leftarrow> filter (\<lambda>s. \<not> raises s) (scrapers self).
            total_scraped (contribution w (article_service self) s))
   \<and> total_added (fst (scrape_all w self))
       = (\<Sum>s \<leftarrow> filter (\<lambda>s. \<not> raises s) (scrapers self).
            total_added (contribution w (article_service self) s))
   \<and> total_skipped (fst (scrape_all w self))
       = (\<Sum>s \<leftarrow> filter (\<lambda>s. \<not> raises s) (scrapers self).
            total_skipped (contribution w (article_service self) s))"
proof -
  let ?svc = "article_service self"
  have z: "\<And>s. raises s \<Longrightarrow> total_scraped (contribution w ?svc s) = 0
             \<and> total_added (contribution w ?svc s) = 0
             \<and> total_skipped (contribution w ?svc s) = 0"
    by (simp add: contribution_raises zero_totals_def)
  have tot: "fst (scrape_all w self)
      = \<lparr>total_scraped = sum_list (map total_scraped (map (contribution w ?svc) (scrapers self))),
         total_added = sum_list (map total_added (map (contribution w ?svc) (scrapers self))),
         total_skipped = sum_list (map total_skipped (map (contribution w ?svc) (scrapers self)))\<rparr>"
    by (simp add: scrape_all_def scrape_loop_totals foldl_add_totals)
  have 1: "started (snd (scrape_all w self)) = map scraper_source (scrapers self)"
    by (simp add: scrape_all_def scrape_loop_started)
  have 2: "\<forall>s tot evs. raises s \<longrightarrow> fst (process_scraper w ?svc (tot, evs) s) = tot"
    by (simp add: process_scraper_additive contribution_raises add_totals_def zero_totals_def)
  have 3: "total_scraped (fst (scrape_all w self))
       = (\<Sum>s \<leftarrow> filter (\<lambda>s. \<not> raises s) (scrapers self). total_scraped (contribution w ?svc s))"
    using sum_list_not_raising [of "\<lambda>s. total_scraped (contribution w ?svc s)" "scrapers self"] z
    by (simp add: tot comp_def)
  have 4: "total_added (fst (scrape_all w self))
       = (\<Sum>s \<leftarrow> filter (\<lambda>s. \<not> raises s) (scrapers self). total_added (contribution w ?svc s))"
    using sum_list_not_raising [of "\<lambda>s. total_added (contribution w ?svc s)" "scrapers self"] z
    by (simp add: tot comp_def)
  have 5: "total_skipped (fst (scrape_all w self))
       = (\<Sum>s \<leftarrow> filter (\<lambda>s. \<not> raises s) (scrapers self). total_skipped (contribution w ?svc s))"
    using sum_list_not_raising [of "\<lambda>s. total_skipped (contribution w ?svc s)" "scrapers self"] z
    by (simp add: tot comp_def)
  from 1 2 3 4 5 show ?thesis by blast
qed

theorem scrape_all_resilient_witness:
  "started (snd (scrape_all world_ex orchestrator_ex))
     = [''Stuff NZ'', ''RNZ'', ''1News NZ'', ''NZ Herald'']
   \<and> fst (scrape_all world_ex orchestrator_ex)
     = \<lparr>total_scraped = 4, total_added = 6, total_skipped = 4\<rparr>"
proof -
  have f: "filter (\<lambda>s. \<not> raises s) (scrapers orchestrator_ex)
      = [\<lparr>scraper_source = ''Stuff NZ'', scrape = Inr articles_ex\<rparr>,
         \<lparr>scraper_source = ''1News NZ'', scrape = Inr [article_ex]\<rparr>,
         \<lparr>scraper_source = ''NZ Herald'', scrape = Inr []\<rparr>]"
    by (simp add: orchestrator_ex_def raises_def)
  have c1: "contribution world_ex (article_service orchestrator_ex)
              \<lparr>scraper_source = ''Stuff NZ'', scrape = Inr articles_ex\<rparr>
            = \<lparr>total_scraped = 3, total_added = 3, total_skipped = 2\<rparr>"
    by code_simp
  have c2: "contribution world_ex (article_service orchestrator_ex)
              \<lparr>scraper_source = ''1News NZ'', scrape = Inr [article_ex]\<rparr>
            = \<lparr>total_scraped = 1, total_added = 3, total_skipped = 2\<rparr>"
    by code_simp
  have c3: "contribution world_ex (article_service orchestrator_ex)
              \<lparr>scraper_source = ''NZ Herald'', scrape = Inr []\<rparr>
            = \<lparr>total_scraped = 0, total_added = 0, total_skipped = 0\<rparr>"
    by code_simp
  have n: "map scraper_source (scrapers orchestrator_ex)
           = [''Stuff NZ'', ''RNZ'', ''1News NZ'', ''NZ Herald'']"
    by (simp add: orchestrator_ex_def)
  have eq: "\<And>t a b c. total_scraped t = a \<Longrightarrow> total_added t = b \<Longrightarrow> total_skipped t = c
           \<Longrightarrow> t = \<lparr>total_scraped = a, total_added = b, total_skipped = c\<rparr>"
    by simp
  show ?thesis
    using scrape_all_resilient [of world_ex orchestrator_ex]
    unfolding f n by (simp add: c1 c2 c3 eq)
qed

section \<open>The wire format of an article\<close>

text \<open>
  What \<^verbatim>\<open>to_dict\<close> does while the datetime stays in the years 1 to 9999: the
  \<^verbatim>\<open>publishedDate\<close> is the ISO format of the stored instant as the zone
  \<^verbatim>\<open>Pacific/Auckland\<close> shows it, with the offset of the zone at that instant; the instant
  is that of an aware datetime, of a naive datetime read as UTC, and the current time for
  a string the parser rejects. A datetime that already carries the zone object is
  printed as it stands.
\<close>

lemma to_dict_publishedDate:
  assumes "\<not> carries_pacific lib t (published_date a)"
    and "in_range (instant_of lib t (published_date a))"
    and "in_range (wall (zone_time (pacific lib) (instant_of lib t (published_date a))))"
  shows "\<exists>w. to_dict lib t a = Inr w
           \<and> w_publishedDate w
               = isoformat (zone_time (pacific lib) (instant_of lib t (published_date a)))"
  using assms
  by (auto simp: to_dict_def astimezone_def instant_of_def zone_time_def now_utc_def Let_def
        carries_pacific_def split: pubdate.splits option.splits)

lemma to_dict_carries_pacific:
  assumes "published_date a = PDatetime d" and "utcoffset d \<noteq> None" and "tz_is_pacific d"
  shows "\<exists>w. to_dict lib t a = Inr w \<and> w_publishedDate w = isoformat d"
  using assms by (auto simp: to_dict_def astimezone_def Let_def)

lemma to_dict_gap_example:
  "map_sum id w_publishedDate (to_dict lib_ex (clock_ex 0) article_gap)
     = Inr ''2024-09-29T02:30:00+12:00''"
  by code_simp

text \<open>The evaluation of the entry dated 9999-12-31T23:59:59, step by step.\<close>

lemma far_ymd: "days2ymd 3652058 = (9999, 12, 31)"
  by code_simp

lemma pads: "zero_pad 4 9999 = ''9999''" "zero_pad 2 12 = ''12''" "zero_pad 2 31 = ''31''"
  "zero_pad 2 23 = ''23''" "zero_pad 2 59 = ''59''"
  by (simp_all add: zero_pad_def show_nat.simps digit_char_def)

lemma far_format: "format_wall 315537897599000000 = ''9999-12-31T23:59:59''"
proof -
  have d: "(315537897599000000::int) div 86400000000 = 3652058"
    and m: "(315537897599000000::int) mod 86400000000 = 86399000000"
    by simp_all
  have t: "(86399000000::int) mod 1000000 = 0" "(86399000000::int) div 1000000 = 86399"
    "(86399::int) div 3600 = 23" "(86399::int) mod 3600 div 60 = 59" "(86399::int) mod 60 = 59"
    by simp_all
  show ?thesis
    unfolding format_wall_def us_per_day_def d m far_ymd Let_def prod.case t pads
    by simp
qed

lemma far_strips:
  "py_strip ''Council votes on new harbour bridge'' = ''Council votes on new harbour bridge''"
  "py_strip ''https://www.stuff.co.nz/nz-news/350000001/council-votes''
     = ''https://www.stuff.co.nz/nz-news/350000001/council-votes''"
  "py_strip ''The council meets on Thursday.'' = ''The council meets on Thursday.''"
  by code_simp+

lemma far_category:
  "first_match
     [(''/nz-news/'', ''NZ News''), (''/world/'', ''World''), (''/sport/'', ''Sport''),
      (''/business/'', ''Business''), (''/entertainment/'', ''Entertainment'')]
     ''https://www.stuff.co.nz/nz-news/350000001/council-votes'' ''General'' = ''NZ News''"
  by code_simp

lemma far_fields:
  "datetime_of_fields [9999, 12, 31, 23, 59, 59, 4, 365, 0]
     = Some (mk_datetime 9999 12 31 23 59 59 0 None)"
  by code_simp

lemma far_wall: "wall (mk_datetime 9999 12 31 23 59 59 0 None) = 315537897599000000"
  by code_simp

lemma far_raises: "to_dict lib_far (clock_ex 0) article_far = Inl OverflowError"
  by code_simp

lemma far_iso:
  "isoformat (mk_datetime 9999 12 31 23 59 59 0 None) = ''9999-12-31T23:59:59''"
proof -
  have o: "utcoffset (mk_datetime 9999 12 31 23 59 59 0 None) = None"
    by (simp add: mk_datetime_def)
  show ?thesis
    unfolding isoformat_def far_wall o far_format format_offset_def by simp
qed

lemma far_entry: "stuff_entry StuffScraper 0 entry_far = Some article_far"
proof -
  have p: "entry_pub_date entry_far = Some (PStr ''9999-12-31T23:59:59'')"
    by (simp add: entry_pub_date_def entry_far_def far_fields far_iso)
  have e: "entry_title entry_far = Some ''Council votes on new harbour bridge''"
    "entry_link entry_far = Some ''https://www.stuff.co.nz/nz-news/350000001/council-votes''"
    "entry_summary entry_far = Some ''The council meets on Thursday.''"
    by (simp_all add: entry_far_def entry_ex_def)
  have c: "cfg_source StuffScraper = ''Stuff NZ''" "cfg_category StuffScraper = ''General''"
    by (simp_all add: StuffScraper_def BaseScraper_def)
  show ?thesis
    unfolding stuff_entry_def e option.case far_strips Let_def p c far_category article_far_def
    by simp
qed

text \<open>
  C3. The serialisation does not emit a \<^verbatim>\<open>publishedDate\<close> for every article. A feed
  entry dated 9999-12-31T23:59:59 makes \<^verbatim>\<open>StuffScraper\<close> store the string
  \<^verbatim>\<open>9999-12-31T23:59:59\<close>; \<^verbatim>\<open>to_dict\<close> parses it to a naive datetime, reads it as UTC, and
  \<^verbatim>\<open>astimezone\<close> raises \<^verbatim>\<open>OverflowError\<close>, because the wall clock of Auckland at that
  instant is in the year 10000. \<^verbatim>\<open>to_dict\<close> catches \<^verbatim>\<open>OverflowError\<close> around the parser
  only, so the exception leaves it.
\<close>

theorem to_dict_far_future_raises:
  "stuff_entry StuffScraper 0 entry_far = Some article_far
   \<and> to_dict lib_far (clock_ex 0) article_far = Inl OverflowError"
  by (simp add: far_entry far_raises)

text \<open>
  C8, as the code has it. Two calls of \<^verbatim>\<open>to_dict\<close> on the same article, made at any two
  readings of the clock, return the same when the stored date is a datetime, or a string
  that the parser accepts with the same result at both calls.
\<close>

theorem to_dict_idempotent:
  assumes "case published_date a of
             PDatetime d \<Rightarrow> True
           | PStr s \<Rightarrow> parser_parse lib ta s \<noteq> None
                        \<and> parser_parse lib ta s = parser_parse lib tb s"
  shows "to_dict lib ta a = to_dict lib tb a"
  using assms
  by (auto simp: to_dict_def Let_def split: pubdate.splits option.splits)

text \<open>
  The claim as the specification words it fails for a stored string the parser rejects:
  \<^verbatim>\<open>to_dict\<close> falls back to the current time at each call, and two calls one
  microsecond apart give different values of \<^verbatim>\<open>publishedDate\<close>.
\<close>

theorem to_dict_unparsable_counterexample:
  "to_dict lib_ex (clock_ex 0) article_unparsable \<noteq> to_dict lib_ex (clock_ex 1) article_unparsable"
  by code_simp

lemma to_dict_publishedDate_examples:
  "map_sum id w_publishedDate (to_dict lib_ex (clock_ex 0) article_ex)
     = Inr ''2024-01-01T13:00:00+13:00''
   \<and> map_sum id w_publishedDate (to_dict lib_ex (clock_ex 0) article_naive)
     = Inr ''2024-07-01T12:00:00+12:00''
   \<and> map_sum id w_publishedDate (to_dict lib_ex (clock_ex 0) article_unparsable)
     = Inr ''2024-07-01T12:00:00+12:00''"
proof -
  have r0: "\<not> carries_pacific lib_ex (clock_ex 0) (published_date article_ex)"
    and n0: "\<not> carries_pacific lib_ex (clock_ex 0) (published_date article_naive)"
    and u0: "\<not> carries_pacific lib_ex (clock_ex 0) (published_date article_unparsable)"
    by code_simp+
  have r1: "in_range (instant_of lib_ex (clock_ex 0) (published_date article_ex))"
    and r2: "in_range (wall (zone_time (pacific lib_ex)
                (instant_of lib_ex (clock_ex 0) (published_date article_ex))))"
    and i: "isoformat (zone_time (pacific lib_ex)
                (instant_of lib_ex (clock_ex 0) (published_date article_ex)))
            = ''2024-01-01T13:00:00+13:00''"
    by code_simp+
  have n1: "in_range (instant_of lib_ex (clock_ex 0) (published_date article_naive))"
    and n2: "in_range (wall (zone_time (pacific lib_ex)
                (instant_of lib_ex (clock_ex 0) (published_date article_naive))))"
    and ni: "isoformat (zone_time (pacific lib_ex)
                (instant_of lib_ex (clock_ex 0) (published_date article_naive)))
            = ''2024-07-01T12:00:00+12:00''"
    by code_simp+
  have u1: "in_range (instant_of lib_ex (clock_ex 0) (published_date article_unparsable))"
    and u2: "in_range (wall (zone_time (pacific lib_ex)
                (instant_of lib_ex (clock_ex 0) (published_date article_unparsable))))"
    and ui: "isoformat (zone_time (pacific lib_ex)
                (instant_of lib_ex (clock_ex 0) (published_date article_unparsable)))
            = ''2024-07-01T12:00:00+12:00''"
    by code_simp+
  show ?thesis
    using to_dict_publishedDate [OF r0 r1 r2] to_dict_publishedDate [OF n0 n1 n2]
      to_dict_publishedDate [OF u0 u1 u2]
    by (auto simp: i ni ui)
qed

theorem to_dict_idempotent_witness:
  "to_dict lib_ex (clock_ex 0) article_ex = to_dict lib_ex (clock_ex 1) article_ex
   \<and> to_dict lib_iso (clock_ex 0) article_iso = to_dict lib_iso (clock_ex 1) article_iso"
  using to_dict_idempotent [where a = article_ex and lib = lib_ex
          and ta = "clock_ex 0" and tb = "clock_ex 1"]
        to_dict_idempotent [where a = article_iso and lib = lib_iso
          and ta = "clock_ex 0" and tb = "clock_ex 1"]
  by (simp add: article_ex_def Article_def article_iso_def lib_iso_def)

section \<open>The scrapers\<close>

lemma feed_scrape_length: "length (feed_scrape per_entry n self) \<le> 20"
proof -
  have "\<And>xs. length (List.map_filter per_entry xs) \<le> length xs"
    by (simp add: List.map_filter_def)
  from this [of "take 20 xs" for xs] show ?thesis
    by (auto simp: feed_scrape_def split: sum.splits intro: order_trans)
qed

lemma herald_loop_length:
  "int (length articles) \<le> max_articles self \<Longrightarrow>
   int (length (herald_loop self t elems articles seen_urls)) \<le> max_articles self"
  by (induction self t elems articles seen_urls rule: herald_loop.induct)
     (auto split: option.splits)

text \<open>
  C6. Every registered scraper is built with the default of \<^verbatim>\<open>max_articles\<close>, 20, and
  its \<^verbatim>\<open>scrape\<close> returns at most that many articles, whatever the feed or the page
  holds and whether or not the fetch raises. The feed scrapers read the first 20 entries;
  the HTML scraper stops when it has \<^verbatim>\<open>max_articles\<close> articles.
\<close>

theorem scrape_at_most_max_articles:
  assumes "(self, scrape_method) \<in> set SCRAPER_REGISTRY"
  shows "int (length (scrape_method n t self)) \<le> max_articles self \<and> max_articles self = 20"
proof -
  have h: "int (length (NZHeraldScraper_scrape n t NZHeraldScraper)) \<le> 20"
    using herald_loop_length [of "[]" NZHeraldScraper]
    by (auto simp: NZHeraldScraper_scrape_def NZHeraldScraper_def BaseScraper_def
             split: sum.splits)
  show ?thesis
    using assms h feed_scrape_length [of _ n]
    by (auto simp: SCRAPER_REGISTRY_def StuffScraper_scrape_def RNZScraper_scrape_def
          OneNewsScraper_scrape_def StuffScraper_def RNZScraper_def OneNewsScraper_def
          NZHeraldScraper_def BaseScraper_def)
qed

theorem scrape_at_most_max_articles_witness:
  "int (length (StuffScraper_scrape net_ex 0 StuffScraper)) \<le> max_articles StuffScraper
   \<and> length (StuffScraper_scrape net_ex 0 StuffScraper) = 20
   \<and> int (length (NZHeraldScraper_scrape net_ex 0 NZHeraldScraper)) \<le> max_articles NZHeraldScraper"
proof -
  have e: "stuff_entry StuffScraper 0 entry_ex \<noteq> None"
    by code_simp
  have "StuffScraper_scrape net_ex 0 StuffScraper
        = List.map_filter (stuff_entry StuffScraper 0) (replicate 20 entry_ex)"
    by (simp add: StuffScraper_scrape_def feed_scrape_def net_ex_def)
  then have a: "length (StuffScraper_scrape net_ex 0 StuffScraper) = 20"
    using e by (simp add: List.map_filter_def)
  show ?thesis
    using scrape_at_most_max_articles [of StuffScraper StuffScraper_scrape net_ex 0]
      scrape_at_most_max_articles [of NZHeraldScraper NZHeraldScraper_scrape net_ex 0]
    by (simp add: a SCRAPER_REGISTRY_def)
qed


end
